theory Spec2Isabelle
  imports Main "HOL-Library.Multiset"
begin

section \<open>Values carried by requests and documents\<close>

text \<open>
  Request bodies are parsed JSON, and the handlers test their fields with JavaScript's
  truthiness (\<^verbatim>\<open>!title\<close>, \<^verbatim>\<open>displayName || ""\<close>). A field is therefore a
  scalar JavaScript value; \<open>JUndefined\<close> is a field that is not there. Numbers are modelled
  by integer values. Arrays and objects as field values are outside this model.
\<close>

datatype jsval = JUndefined | JNull | JBool bool | JNum int | JStr string

fun truthy :: "jsval \<Rightarrow> bool" where
  "truthy JUndefined = False"
| "truthy JNull = False"
| "truthy (JBool b) = b"
| "truthy (JNum n) = (n \<noteq> 0)"
| "truthy (JStr s) = (s \<noteq> [])"

text \<open>\<^verbatim>\<open>a || b\<close>\<close>

definition jor :: "jsval \<Rightarrow> jsval \<Rightarrow> jsval" where
  "jor a b = (if truthy a then a else b)"

text \<open>
  An ObjectId is written by its hexadecimal string; a date by its time value in
  milliseconds (\<^verbatim>\<open>getTime()\<close>). A request body or query maps a field name to its value.
\<close>

type_synonym objectid = string
type_synonym date = int
type_synonym body = "string \<Rightarrow> jsval"

text \<open>
  What the handlers call outside this repository: \<^verbatim>\<open>ObjectId.isValid(x)\<close>,
  \<^verbatim>\<open>new ObjectId(x)\<close> (driver) and \<^verbatim>\<open>new Date(x)\<close> (language runtime), the last
  with \<open>None\<close> for an invalid date, whose \<^verbatim>\<open>getTime()\<close> is NaN. The handlers take
  them as a parameter.
\<close>

record runtime =
  isValid :: "jsval \<Rightarrow> bool"
  newObjectId :: "jsval \<Rightarrow> objectid"
  newDate :: "jsval \<Rightarrow> date option"

section \<open>Documents and collections\<close>

record event =
  ev_id :: objectid
  ev_title :: jsval
  ev_description :: jsval
  ev_eventType :: jsval
  ev_thumbnail :: jsval
  ev_location :: jsval
  ev_eventDate :: date
  ev_creatorEmail :: jsval
  ev_createdAt :: date

record joined =
  jn_id :: objectid
  jn_eventId :: objectid
  jn_userEmail :: jsval
  jn_joinedAt :: date
  jn_eventTitle :: jsval
  jn_eventType :: jsval
  jn_thumbnail :: jsval
  jn_location :: jsval
  jn_eventDate :: date
  jn_creatorEmail :: jsval

record user =
  us_id :: objectid
  us_email :: jsval
  us_displayName :: jsval
  us_photoURL :: jsval
  us_role :: jsval
  us_createdAt :: date
  us_updatedAt :: date

text \<open>
  The three collections, each in insertion order, and the store calls issued so far
  (so that a handler that returns before touching the store can be told apart).
\<close>

datatype coll = Events | Joined | Users

datatype call =
    FindOne coll | Find coll | InsertOne coll | UpdateOne coll
  | DeleteOne coll | DeleteMany coll | Distinct coll | Aggregate coll
  | EstimatedDocumentCount coll

record db =
  eventsCollection :: "event list"
  joinedCollection :: "joined list"
  usersCollection :: "user list"
  calls :: "call list"

definition logged :: "call \<Rightarrow> db \<Rightarrow> db" where
  "logged c s = s\<lparr>calls := calls s @ [c]\<rparr>"

text \<open>
  A response: the HTTP status with the \<^verbatim>\<open>message\<close> of a failure, or with the payload
  of a success. In the specification's words, status 400 is \<open>ValidationError\<close> (and
  \<open>Conflict\<close> for the already-joined message), 403 \<open>Forbidden\<close>, 404 \<open>NotFound\<close>,
  500 \<open>StoreError\<close>.
\<close>

datatype 'a response = Failure nat string | Success nat 'a

subsection \<open>Store operations\<close>

text \<open>
  An equality filter \<^verbatim>\<open>{field: q}\<close> on a scalar: the driver sends \<^verbatim>\<open>undefined\<close>
  as null, and null matches a null or missing field; any other value matches itself.
\<close>

definition qmatch :: "jsval \<Rightarrow> jsval \<Rightarrow> bool" where
  "qmatch q v = (if q = JUndefined \<or> q = JNull then v = JUndefined \<or> v = JNull else v = q)"

text \<open>\<^verbatim>\<open>updateOne\<close>, \<^verbatim>\<open>deleteOne\<close>: the first document that matches.\<close>

fun update_first :: "('a \<Rightarrow> bool) \<Rightarrow> ('a \<Rightarrow> 'a) \<Rightarrow> 'a list \<Rightarrow> 'a list" where
  "update_first P f [] = []"
| "update_first P f (x # xs) = (if P x then f x # xs else x # update_first P f xs)"

fun delete_first :: "('a \<Rightarrow> bool) \<Rightarrow> 'a list \<Rightarrow> 'a list" where
  "delete_first P [] = []"
| "delete_first P (x # xs) = (if P x then xs else x # delete_first P xs)"

text \<open>
  \<^verbatim>\<open>insertOne\<close>: the driver gives the document its \<^verbatim>\<open>_id\<close>; the unique index on
  \<^verbatim>\<open>_id\<close> refuses a second document with the same one (the call throws).
\<close>

definition insert_doc :: "('a \<Rightarrow> objectid) \<Rightarrow> 'a \<Rightarrow> 'a list \<Rightarrow> 'a list option" where
  "insert_doc idf doc xs = (if idf doc \<in> idf ` set xs then None else Some (xs @ [doc]))"

definition events_findOne :: "(event \<Rightarrow> bool) \<Rightarrow> db \<Rightarrow> event option \<times> db" where
  "events_findOne P s = (find P (eventsCollection s), logged (FindOne Events) s)"

definition events_find :: "(event \<Rightarrow> bool) \<Rightarrow> db \<Rightarrow> event list \<times> db" where
  "events_find P s = (filter P (eventsCollection s), logged (Find Events) s)"

definition events_insertOne :: "event \<Rightarrow> db \<Rightarrow> objectid option \<times> db" where
  "events_insertOne doc s =
     (case insert_doc ev_id doc (eventsCollection s) of
        None \<Rightarrow> (None, logged (InsertOne Events) s)
      | Some xs \<Rightarrow> (Some (ev_id doc), logged (InsertOne Events) (s\<lparr>eventsCollection := xs\<rparr>)))"

text \<open>The result of \<^verbatim>\<open>updateOne\<close> is (matchedCount, modifiedCount).\<close>

definition events_updateOne ::
  "(event \<Rightarrow> bool) \<Rightarrow> (event \<Rightarrow> event) \<Rightarrow> db \<Rightarrow> (nat \<times> nat) \<times> db" where
  "events_updateOne P f s =
     (let xs = eventsCollection s; ys = update_first P f xs in
      ((if list_ex P xs then 1 else 0, if ys = xs then 0 else 1),
       logged (UpdateOne Events) (s\<lparr>eventsCollection := ys\<rparr>)))"

definition events_deleteOne :: "(event \<Rightarrow> bool) \<Rightarrow> db \<Rightarrow> db" where
  "events_deleteOne P s =
     logged (DeleteOne Events) (s\<lparr>eventsCollection := delete_first P (eventsCollection s)\<rparr>)"

definition joined_findOne :: "(joined \<Rightarrow> bool) \<Rightarrow> db \<Rightarrow> joined option \<times> db" where
  "joined_findOne P s = (find P (joinedCollection s), logged (FindOne Joined) s)"

definition joined_find :: "(joined \<Rightarrow> bool) \<Rightarrow> db \<Rightarrow> joined list \<times> db" where
  "joined_find P s = (filter P (joinedCollection s), logged (Find Joined) s)"

definition joined_insertOne :: "joined \<Rightarrow> db \<Rightarrow> objectid option \<times> db" where
  "joined_insertOne doc s =
     (case insert_doc jn_id doc (joinedCollection s) of
        None \<Rightarrow> (None, logged (InsertOne Joined) s)
      | Some xs \<Rightarrow> (Some (jn_id doc), logged (InsertOne Joined) (s\<lparr>joinedCollection := xs\<rparr>)))"

definition joined_deleteMany :: "(joined \<Rightarrow> bool) \<Rightarrow> db \<Rightarrow> db" where
  "joined_deleteMany P s =
     logged (DeleteMany Joined)
       (s\<lparr>joinedCollection := filter (\<lambda>j. \<not> P j) (joinedCollection s)\<rparr>)"

definition users_findOne :: "(user \<Rightarrow> bool) \<Rightarrow> db \<Rightarrow> user option \<times> db" where
  "users_findOne P s = (find P (usersCollection s), logged (FindOne Users) s)"

definition users_find :: "(user \<Rightarrow> bool) \<Rightarrow> db \<Rightarrow> user list \<times> db" where
  "users_find P s = (filter P (usersCollection s), logged (Find Users) s)"

definition users_insertOne :: "user \<Rightarrow> db \<Rightarrow> objectid option \<times> db" where
  "users_insertOne doc s =
     (case insert_doc us_id doc (usersCollection s) of
        None \<Rightarrow> (None, logged (InsertOne Users) s)
      | Some xs \<Rightarrow> (Some (us_id doc), logged (InsertOne Users) (s\<lparr>usersCollection := xs\<rparr>)))"

definition users_updateOne ::
  "(user \<Rightarrow> bool) \<Rightarrow> (user \<Rightarrow> user) \<Rightarrow> db \<Rightarrow> (nat \<times> nat) \<times> db" where
  "users_updateOne P f s =
     (let xs = usersCollection s; ys = update_first P f xs in
      ((if list_ex P xs then 1 else 0, if ys = xs then 0 else 1),
       logged (UpdateOne Users) (s\<lparr>usersCollection := ys\<rparr>)))"

section \<open>Event handlers\<close>

text \<open>
  Each handler takes the runtime, the clock readings of its \<^verbatim>\<open>new Date()\<close> calls in
  the order they are made, the \<^verbatim>\<open>_id\<close> the driver gives to a document it inserts,
  the request, and the store; it returns the response and the store afterwards.
\<close>

text \<open>\<^verbatim>\<open>POST /events\<close>\<close>

definition post_events ::
  "runtime \<Rightarrow> date \<Rightarrow> date \<Rightarrow> objectid \<Rightarrow> body \<Rightarrow> db \<Rightarrow> objectid response \<times> db" where
  "post_events V now createdAt insertedId body s =
     (let title = body ''title''; description = body ''description'';
          eventType = body ''eventType''; thumbnail = body ''thumbnail'';
          location = body ''location''; eventDate = body ''eventDate'';
          creatorEmail = body ''creatorEmail''
      in
      if \<not> truthy title \<or> \<not> truthy description \<or> \<not> truthy eventType \<or> \<not> truthy thumbnail
         \<or> \<not> truthy location \<or> \<not> truthy eventDate \<or> \<not> truthy creatorEmail
      then (Failure 400 ''All fields are required.'', s)
      else
        (case newDate V eventDate of
           None \<Rightarrow> (Failure 400 ''Invalid event date.'', s)
         | Some eventDateObj \<Rightarrow>
             if eventDateObj \<le> now
             then (Failure 400 ''Event date must be a future date.'', s)
             else
               (let doc = \<lparr>ev_id = insertedId, ev_title = title,
                          ev_description = description, ev_eventType = eventType,
                          ev_thumbnail = thumbnail, ev_location = location,
                          ev_eventDate = eventDateObj, ev_creatorEmail = creatorEmail,
                          ev_createdAt = createdAt\<rparr>
                in
                case events_insertOne doc s of
                  (None, s') \<Rightarrow> (Failure 500 ''Failed to create event'', s')
                | (Some i, s') \<Rightarrow> (Success 201 i, s'))))"

text \<open>\<^verbatim>\<open>GET /events\<close>: \<^verbatim>\<open>find({}).sort({eventDate: 1})\<close>\<close>

definition get_events :: "db \<Rightarrow> event list response \<times> db" where
  "get_events s =
     (case events_find (\<lambda>e. True) s of
        (found, s') \<Rightarrow> (Success 200 (sort_key ev_eventDate found), s'))"

text \<open>\<^verbatim>\<open>GET /events/upcoming\<close>: \<^verbatim>\<open>find({eventDate: {$gt: now}}).sort({eventDate: 1})\<close>\<close>

definition get_events_upcoming :: "date \<Rightarrow> db \<Rightarrow> event list response \<times> db" where
  "get_events_upcoming now s =
     (case events_find (\<lambda>e. ev_eventDate e > now) s of
        (found, s') \<Rightarrow> (Success 200 (sort_key ev_eventDate found), s'))"

text \<open>\<^verbatim>\<open>GET /events/user?email=\<close>\<close>

definition get_events_user :: "body \<Rightarrow> db \<Rightarrow> event list response \<times> db" where
  "get_events_user query s =
     (let email = query ''email'' in
      if \<not> truthy email then (Failure 400 ''User email is required.'', s)
      else
        (case events_find (\<lambda>e. qmatch email (ev_creatorEmail e)) s of
           (found, s') \<Rightarrow> (Success 200 (sort_key ev_eventDate found), s')))"

text \<open>\<^verbatim>\<open>GET /events/:id\<close>\<close>

definition get_event :: "runtime \<Rightarrow> string \<Rightarrow> db \<Rightarrow> event response \<times> db" where
  "get_event V id' s =
     (if \<not> isValid V (JStr id') then (Failure 400 ''Invalid event id.'', s)
      else
        (case events_findOne (\<lambda>e. ev_id e = newObjectId V (JStr id')) s of
           (None, s') \<Rightarrow> (Failure 404 ''Event not found.'', s')
         | (Some event, s') \<Rightarrow> (Success 200 event, s')))"

text \<open>
  \<^verbatim>\<open>PUT /events/:id\<close>. The payload is \<^verbatim>\<open>modifiedCount\<close>. On scalars
  \<^verbatim>\<open>!==\<close> is inequality of values.
\<close>

definition put_event ::
  "runtime \<Rightarrow> date \<Rightarrow> string \<Rightarrow> body \<Rightarrow> db \<Rightarrow> nat response \<times> db" where
  "put_event V now id' body s =
     (let title = body ''title''; description = body ''description'';
          eventType = body ''eventType''; thumbnail = body ''thumbnail'';
          location = body ''location''; eventDate = body ''eventDate'';
          requestorEmail = body ''requestorEmail''
      in
      if \<not> isValid V (JStr id') then (Failure 400 ''Invalid event id.'', s)
      else if \<not> truthy requestorEmail then (Failure 400 ''requestorEmail is required.'', s)
      else
        (case events_findOne (\<lambda>e. ev_id e = newObjectId V (JStr id')) s of
           (None, s1) \<Rightarrow> (Failure 404 ''Event not found.'', s1)
         | (Some existing, s1) \<Rightarrow>
             if ev_creatorEmail existing \<noteq> requestorEmail
             then (Failure 403 ''You are not allowed to update this event.'', s1)
             else if \<not> truthy title \<or> \<not> truthy description \<or> \<not> truthy eventType
                     \<or> \<not> truthy thumbnail \<or> \<not> truthy location \<or> \<not> truthy eventDate
             then (Failure 400 ''All fields are required.'', s1)
             else
               (case newDate V eventDate of
                  None \<Rightarrow> (Failure 400 ''Invalid event date.'', s1)
                | Some eventDateObj \<Rightarrow>
                    if eventDateObj \<le> now
                    then (Failure 400 ''Event date must be a future date.'', s1)
                    else
                      (case events_updateOne
                              (\<lambda>e. ev_id e = newObjectId V (JStr id'))
                              (\<lambda>e. e\<lparr>ev_title := title, ev_description := description,
                                     ev_eventType := eventType, ev_thumbnail := thumbnail,
                                     ev_location := location, ev_eventDate := eventDateObj\<rparr>)
                              s1 of
                         ((matchedCount, modifiedCount), s2) \<Rightarrow>
                           (Success 200 modifiedCount, s2)))))"

text \<open>\<^verbatim>\<open>POST /join-event\<close>\<close>

definition post_join_event ::
  "runtime \<Rightarrow> date \<Rightarrow> objectid \<Rightarrow> body \<Rightarrow> db \<Rightarrow> objectid response \<times> db" where
  "post_join_event V joinedAt insertedId body s =
     (let eventId = body ''eventId''; userEmail = body ''userEmail'' in
      if \<not> truthy eventId \<or> \<not> truthy userEmail
      then (Failure 400 ''eventId and userEmail are required.'', s)
      else if \<not> isValid V eventId then (Failure 400 ''Invalid eventId.'', s)
      else
        (case events_findOne (\<lambda>e. ev_id e = newObjectId V eventId) s of
           (None, s1) \<Rightarrow> (Failure 404 ''Event not found.'', s1)
         | (Some event, s1) \<Rightarrow>
             (case joined_findOne
                     (\<lambda>j. jn_eventId j = ev_id event \<and> qmatch userEmail (jn_userEmail j)) s1 of
                (Some existing, s2) \<Rightarrow>
                  (Failure 400 ''You have already joined this event.'', s2)
              | (None, s2) \<Rightarrow>
                  (let joinDoc = \<lparr>jn_id = insertedId, jn_eventId = ev_id event,
                                  jn_userEmail = userEmail, jn_joinedAt = joinedAt,
                                  jn_eventTitle = ev_title event,
                                  jn_eventType = ev_eventType event,
                                  jn_thumbnail = ev_thumbnail event,
                                  jn_location = ev_location event,
                                  jn_eventDate = ev_eventDate event,
                                  jn_creatorEmail = ev_creatorEmail event\<rparr>
                   in
                   case joined_insertOne joinDoc s2 of
                     (None, s3) \<Rightarrow> (Failure 500 ''Failed to join event.'', s3)
                   | (Some i, s3) \<Rightarrow> (Success 201 i, s3)))))"

text \<open>\<^verbatim>\<open>DELETE /events/:id\<close>\<close>

definition delete_event :: "runtime \<Rightarrow> string \<Rightarrow> body \<Rightarrow> db \<Rightarrow> unit response \<times> db" where
  "delete_event V id' body s =
     (let requestorEmail = body ''requestorEmail'' in
      if \<not> isValid V (JStr id') then (Failure 400 ''Invalid event id.'', s)
      else if \<not> truthy requestorEmail then (Failure 400 ''requestorEmail is required.'', s)
      else
        (case events_findOne (\<lambda>e. ev_id e = newObjectId V (JStr id')) s of
           (None, s1) \<Rightarrow> (Failure 404 ''Event not found.'', s1)
         | (Some existing, s1) \<Rightarrow>
             if ev_creatorEmail existing \<noteq> requestorEmail
             then (Failure 403 ''You are not allowed to delete this event.'', s1)
             else
               (let s2 = events_deleteOne (\<lambda>e. ev_id e = newObjectId V (JStr id')) s1;
                    s3 = joined_deleteMany (\<lambda>j. jn_eventId j = newObjectId V (JStr id')) s2
                in (Success 200 (), s3))))"

text \<open>\<^verbatim>\<open>GET /joined?email=\<close>\<close>

definition get_joined :: "body \<Rightarrow> db \<Rightarrow> joined list response \<times> db" where
  "get_joined query s =
     (let userEmail = query ''email'' in
      if \<not> truthy userEmail then (Failure 400 ''User email is required.'', s)
      else
        (case joined_find (\<lambda>j. qmatch userEmail (jn_userEmail j)) s of
           (found, s') \<Rightarrow> (Success 200 (sort_key jn_eventDate found), s')))"

section \<open>User handlers\<close>

text \<open>The public projection of a user: email, displayName, photoURL, role.\<close>

type_synonym user_public = "jsval \<times> jsval \<times> jsval \<times> jsval"

definition public :: "user \<Rightarrow> user_public" where
  "public u = (us_email u, us_displayName u, us_photoURL u, us_role u)"

text \<open>
  \<^verbatim>\<open>POST /users/sync\<close>. The create path reads the clock twice (\<open>t1\<close>, \<open>t2\<close>), the
  update path once. When the second \<^verbatim>\<open>findOne\<close> of the update path finds nothing,
  \<^verbatim>\<open>user.email\<close> throws and the handler answers 500.
\<close>

definition post_users_sync ::
  "date \<Rightarrow> date \<Rightarrow> objectid \<Rightarrow> body \<Rightarrow> db \<Rightarrow> user_public response \<times> db" where
  "post_users_sync t1 t2 insertedId body s =
     (let email = body ''email''; displayName = body ''displayName'';
          photoURL = body ''photoURL''
      in
      if \<not> truthy email then (Failure 400 ''Email is required.'', s)
      else
        (case users_findOne (\<lambda>u. qmatch email (us_email u)) s of
           (None, s1) \<Rightarrow>
             (let newUser = \<lparr>us_id = insertedId, us_email = email,
                             us_displayName = jor displayName (JStr []),
                             us_photoURL = jor photoURL (JStr []),
                             us_role = JStr ''user'',
                             us_createdAt = t1, us_updatedAt = t2\<rparr>
              in
              case users_insertOne newUser s1 of
                (None, s2) \<Rightarrow> (Failure 500 ''Failed to sync user.'', s2)
              | (Some i, s2) \<Rightarrow> (Success 200 (public newUser), s2))
         | (Some user, s1) \<Rightarrow>
             (case users_updateOne (\<lambda>u. qmatch email (us_email u))
                     (\<lambda>u. (if truthy photoURL then us_photoURL_update (\<lambda>_. photoURL) else id)
                            ((if truthy displayName
                              then us_displayName_update (\<lambda>_. displayName) else id)
                             (u\<lparr>us_updatedAt := t1\<rparr>)))
                     s1 of
                (r, s2) \<Rightarrow>
                  (case users_findOne (\<lambda>u. qmatch email (us_email u)) s2 of
                     (None, s3) \<Rightarrow> (Failure 500 ''Failed to sync user.'', s3)
                   | (Some user', s3) \<Rightarrow> (Success 200 (public user'), s3)))))"

text \<open>\<^verbatim>\<open>GET /users/:email\<close>: the projection and \<^verbatim>\<open>createdAt\<close>.\<close>

definition get_user :: "string \<Rightarrow> db \<Rightarrow> (user_public \<times> date) response \<times> db" where
  "get_user email s =
     (case users_findOne (\<lambda>u. qmatch (JStr email) (us_email u)) s of
        (None, s') \<Rightarrow> (Failure 404 ''User not found.'', s')
      | (Some user, s') \<Rightarrow> (Success 200 (public user, us_createdAt user), s'))"

text \<open>
  \<^verbatim>\<open>PATCH /users/:email/role\<close>. \<^verbatim>\<open>["user", "admin"].includes(role)\<close> holds for
  these two strings only.
\<close>

definition patch_user_role :: "date \<Rightarrow> string \<Rightarrow> body \<Rightarrow> db \<Rightarrow> unit response \<times> db" where
  "patch_user_role now email body s =
     (let role = body ''role''; requestorEmail = body ''requestorEmail'' in
      if \<not> truthy role \<or> \<not> (role = JStr ''user'' \<or> role = JStr ''admin'')
      then (Failure 400 ''Valid role (user or admin) is required.'', s)
      else
        (case users_findOne (\<lambda>u. qmatch requestorEmail (us_email u)) s of
           (requestor, s1) \<Rightarrow>
             if (case requestor of None \<Rightarrow> True | Some r \<Rightarrow> us_role r \<noteq> JStr ''admin'')
             then (Failure 403 ''Only admins can update user roles.'', s1)
             else
               (case users_updateOne (\<lambda>u. qmatch (JStr email) (us_email u))
                       (\<lambda>u. u\<lparr>us_role := role, us_updatedAt := now\<rparr>) s1 of
                  ((matchedCount, modifiedCount), s2) \<Rightarrow>
                    if matchedCount = 0 then (Failure 404 ''User not found.'', s2)
                    else (Success 200 (), s2))))"

text \<open>\<^verbatim>\<open>GET /users?requestorEmail=\<close>\<close>

definition get_users :: "body \<Rightarrow> db \<Rightarrow> (user_public \<times> date) list response \<times> db" where
  "get_users query s =
     (let requestorEmail = query ''requestorEmail'' in
      if \<not> truthy requestorEmail then (Failure 400 ''Requestor email is required.'', s)
      else
        (case users_findOne (\<lambda>u. qmatch requestorEmail (us_email u)) s of
           (requestor, s1) \<Rightarrow>
             if (case requestor of None \<Rightarrow> True | Some r \<Rightarrow> us_role r \<noteq> JStr ''admin'')
             then (Failure 403 ''Only admins can view all users.'', s1)
             else
               (case users_find (\<lambda>u. True) s1 of
                  (found, s2) \<Rightarrow>
                    (Success 200 (map (\<lambda>u. (public u, us_createdAt u)) found), s2))))"

section \<open>Statistics\<close>

text \<open>
  \<^verbatim>\<open>estimatedDocumentCount\<close> is taken as the number of documents.
  \<^verbatim>\<open>distinct(field)\<close> gives each value that occurs once and skips documents without the
  field. \<^verbatim>\<open>$group\<close> on a field gives one group per value, documents without the
  field falling into the group of null.
\<close>

definition distinct_values :: "jsval list \<Rightarrow> jsval list" where
  "distinct_values vs = remdups (filter (\<lambda>v. v \<noteq> JUndefined) vs)"

definition group_values :: "jsval list \<Rightarrow> jsval list" where
  "group_values vs = remdups (map (\<lambda>v. if v = JUndefined then JNull else v) vs)"

text \<open>
  \<^verbatim>\<open>initDb\<close> opens the client with
  \<^verbatim>\<open>serverApi: {version: "1", strict: true, deprecationErrors: true}\<close>: the store
  refuses a command that is not of version 1 of its API, and the call throws.
  \<^verbatim>\<open>distinct\<close> is not a command of that version; the other calls the handlers make
  are.
\<close>

definition stable_api_v1 :: "call \<Rightarrow> bool" where
  "stable_api_v1 c = (case c of Distinct x \<Rightarrow> False | _ \<Rightarrow> True)"

text \<open>\<open>None\<close> is the call that throws.\<close>

definition events_distinct :: "(event \<Rightarrow> jsval) \<Rightarrow> db \<Rightarrow> jsval list option \<times> db" where
  "events_distinct field s =
     (if stable_api_v1 (Distinct Events)
      then Some (distinct_values (map field (eventsCollection s))) else None,
      logged (Distinct Events) s)"

definition joined_distinct :: "(joined \<Rightarrow> jsval) \<Rightarrow> db \<Rightarrow> jsval list option \<times> db" where
  "joined_distinct field s =
     (if stable_api_v1 (Distinct Joined)
      then Some (distinct_values (map field (joinedCollection s))) else None,
      logged (Distinct Joined) s)"

record statistics =
  totalEvents :: nat
  totalUsers :: nat
  totalJoined :: nat

text \<open>
  \<^verbatim>\<open>GET /stats\<close> as \<^verbatim>\<open>index.js\<close> has it, with \<^verbatim>\<open>distinct\<close>. A call that
  throws is caught by the handler, which answers 500.
\<close>

definition get_stats :: "db \<Rightarrow> statistics response \<times> db" where
  "get_stats s =
     (let s1 = logged (EstimatedDocumentCount Events) s;
          totalEvents = length (eventsCollection s1);
          s2 = logged (EstimatedDocumentCount Joined) s1;
          totalJoined = length (joinedCollection s2)
      in
      case events_distinct ev_creatorEmail s2 of
        (None, s3) \<Rightarrow> (Failure 500 ''Failed to load statistics'', s3)
      | (Some creatorEmails, s3) \<Rightarrow>
          (case joined_distinct jn_userEmail s3 of
             (None, s4) \<Rightarrow> (Failure 500 ''Failed to load statistics'', s4)
           | (Some participantEmails, s4) \<Rightarrow>
               (let allUserEmails = remdups (creatorEmails @ participantEmails);
                    totalUsers = length allUserEmails
                in (Success 200 \<lparr>totalEvents = totalEvents, totalUsers = totalUsers,
                                  totalJoined = totalJoined\<rparr>, s4))))"

text \<open>
  \<^verbatim>\<open>GET /stats\<close> as the revision with the users collection has it, with
  \<^verbatim>\<open>aggregate\<close> and \<^verbatim>\<open>.filter(Boolean)\<close>.
\<close>

definition get_stats_aggregate :: "db \<Rightarrow> statistics response \<times> db" where
  "get_stats_aggregate s =
     (let s1 = logged (EstimatedDocumentCount Events) s;
          totalEvents = length (eventsCollection s1);
          s2 = logged (EstimatedDocumentCount Joined) s1;
          totalJoined = length (joinedCollection s2);
          s3 = logged (Aggregate Events) s2;
          creatorEmailsResult = group_values (map ev_creatorEmail (eventsCollection s3));
          s4 = logged (Aggregate Joined) s3;
          participantEmailsResult = group_values (map jn_userEmail (joinedCollection s4));
          creatorEmails = filter truthy creatorEmailsResult;
          participantEmails = filter truthy participantEmailsResult;
          allUserEmails = remdups (creatorEmails @ participantEmails);
          totalUsers = length allUserEmails
      in (Success 200 \<lparr>totalEvents = totalEvents, totalUsers = totalUsers,
                        totalJoined = totalJoined\<rparr>, s4))"

section \<open>A runtime and requests to evaluate the handlers on\<close>

text \<open>
  A request body given by its fields. The sample runtime accepts as ObjectId the strings
  of 24 hexadecimal digits, and reads a number as the time value of a date, as
  \<^verbatim>\<open>new Date(n)\<close> does within the range of time values; it parses no date string.
\<close>

definition fields :: "(string \<times> jsval) list \<Rightarrow> body" where
  "fields kvs k = (case map_of kvs k of None \<Rightarrow> JUndefined | Some v \<Rightarrow> v)"

definition hex_lower :: "char \<Rightarrow> char" where
  "hex_lower c = (case map_of (zip ''ABCDEF'' ''abcdef'') c of None \<Rightarrow> c | Some d \<Rightarrow> d)"

definition sample_runtime :: runtime where
  "sample_runtime =
     \<lparr>isValid = (\<lambda>v. case v of
                   JStr x \<Rightarrow> length x = 24 \<and> list_all (\<lambda>c. c \<in> set ''0123456789abcdefABCDEF'') x
                 | _ \<Rightarrow> False),
      newObjectId = (\<lambda>v. case v of JStr x \<Rightarrow> map hex_lower x | _ \<Rightarrow> []),
      newDate = (\<lambda>v. case v of
                   JNum n \<Rightarrow> if \<bar>n\<bar> \<le> 8640000000000000 then Some n else None
                 | _ \<Rightarrow> None)\<rparr>"

section \<open>Notions used to state the properties\<close>

fun status :: "'a response \<Rightarrow> nat" where
  "status (Failure c m) = c"
| "status (Success c p) = c"

fun is_success :: "'a response \<Rightarrow> bool" where
  "is_success (Failure c m) = False"
| "is_success (Success c p) = True"

fun payload :: "'a response \<Rightarrow> 'a option" where
  "payload (Failure c m) = None"
| "payload (Success c p) = Some p"

text \<open>The event an ObjectId resolves to, and the user an email resolves to.\<close>

definition lookup_event :: "objectid \<Rightarrow> db \<Rightarrow> event option" where
  "lookup_event i s = find (\<lambda>e. ev_id e = i) (eventsCollection s)"

definition lookup_user :: "jsval \<Rightarrow> db \<Rightarrow> user option" where
  "lookup_user email s = find (\<lambda>u. qmatch email (us_email u)) (usersCollection s)"

text \<open>The store's unique index on \<^verbatim>\<open>_id\<close>, for the events.\<close>

definition event_ids_unique :: "db \<Rightarrow> bool" where
  "event_ids_unique s = distinct (map ev_id (eventsCollection s))"

text \<open>At most one Join per pair of event and user.\<close>

definition joins_unique :: "db \<Rightarrow> bool" where
  "joins_unique s = distinct (map (\<lambda>j. (jn_eventId j, jn_userEmail j)) (joinedCollection s))"

text \<open>Every stored creator and participant email is a non-empty value.\<close>

definition emails_present :: "db \<Rightarrow> bool" where
  "emails_present s =
     (list_all (\<lambda>e. truthy (ev_creatorEmail e)) (eventsCollection s)
      \<and> list_all (\<lambda>j. truthy (jn_userEmail j)) (joinedCollection s))"

text \<open>The emails the statistics are about.\<close>

definition all_emails :: "db \<Rightarrow> jsval set" where
  "all_emails s =
     ev_creatorEmail ` set (eventsCollection s) \<union> jn_userEmail ` set (joinedCollection s)"

subsection \<open>Sample data\<close>

definition sample_id :: string where
  "sample_id = ''64b7f0c2a1d3e4f5a6b7c8d9''"

definition sample_event :: event where
  "sample_event =
     \<lparr>ev_id = sample_id, ev_title = JStr ''Park Cleanup'',
      ev_description = JStr ''Clean the park'', ev_eventType = JStr ''Cleanup'',
      ev_thumbnail = JStr ''https://x.com/p.png'', ev_location = JStr ''City Park'',
      ev_eventDate = 2000, ev_creatorEmail = JStr ''alice@x.com'', ev_createdAt = 500\<rparr>"

definition other_event :: event where
  "other_event =
     \<lparr>ev_id = ''64b7f0c2a1d3e4f5a6b7c8da'', ev_title = JStr ''Tree Day'',
      ev_description = JStr ''Plant trees'', ev_eventType = JStr ''Plantation'',
      ev_thumbnail = JStr ''https://x.com/t.png'', ev_location = JStr ''Sector 5'',
      ev_eventDate = 1500, ev_creatorEmail = JStr ''bob@x.com'', ev_createdAt = 400\<rparr>"

definition sample_join :: joined where
  "sample_join =
     \<lparr>jn_id = ''74b7f0c2a1d3e4f5a6b7c8d0'', jn_eventId = sample_id,
      jn_userEmail = JStr ''carol@x.com'', jn_joinedAt = 600,
      jn_eventTitle = JStr ''Park Cleanup'', jn_eventType = JStr ''Cleanup'',
      jn_thumbnail = JStr ''https://x.com/p.png'', jn_location = JStr ''City Park'',
      jn_eventDate = 2000, jn_creatorEmail = JStr ''alice@x.com''\<rparr>"

definition other_join :: joined where
  "other_join =
     \<lparr>jn_id = ''74b7f0c2a1d3e4f5a6b7c8d1'', jn_eventId = ''64b7f0c2a1d3e4f5a6b7c8da'',
      jn_userEmail = JStr ''carol@x.com'', jn_joinedAt = 700,
      jn_eventTitle = JStr ''Tree Day'', jn_eventType = JStr ''Plantation'',
      jn_thumbnail = JStr ''https://x.com/t.png'', jn_location = JStr ''Sector 5'',
      jn_eventDate = 1500, jn_creatorEmail = JStr ''bob@x.com''\<rparr>"

definition admin_user :: user where
  "admin_user =
     \<lparr>us_id = ''84b7f0c2a1d3e4f5a6b7c8d0'', us_email = JStr ''root@x.com'',
      us_displayName = JStr ''Root'', us_photoURL = JStr [], us_role = JStr ''admin'',
      us_createdAt = 100, us_updatedAt = 100\<rparr>"

definition plain_user :: user where
  "plain_user =
     \<lparr>us_id = ''84b7f0c2a1d3e4f5a6b7c8d1'', us_email = JStr ''carol@x.com'',
      us_displayName = JStr ''Carol'', us_photoURL = JStr ''https://x.com/c.png'',
      us_role = JStr ''user'', us_createdAt = 200, us_updatedAt = 300\<rparr>"

definition sample_db :: db where
  "sample_db =
     \<lparr>eventsCollection = [sample_event, other_event],
      joinedCollection = [sample_join, other_join],
      usersCollection = [admin_user, plain_user], calls = []\<rparr>"

text \<open>A complete body for creating or updating an event, with the given date and emails.\<close>

definition event_body :: "jsval \<Rightarrow> jsval \<Rightarrow> body" where
  "event_body eventDate email =
     fields [(''title'', JStr ''Beach Cleanup''), (''description'', JStr ''Clean the beach''),
             (''eventType'', JStr ''Cleanup''), (''thumbnail'', JStr ''https://x.com/b.png''),
             (''location'', JStr ''Sunset Beach''), (''eventDate'', eventDate),
             (''creatorEmail'', email), (''requestorEmail'', email)]"

text \<open>What a successful update writes into an event: the six mutable fields.\<close>

definition overwrite :: "body \<Rightarrow> date \<Rightarrow> event \<Rightarrow> event" where
  "overwrite body d e =
     e\<lparr>ev_title := body ''title'', ev_description := body ''description'',
       ev_eventType := body ''eventType'', ev_thumbnail := body ''thumbnail'',
       ev_location := body ''location'', ev_eventDate := d\<rparr>"

text \<open>The date of a request is unparseable, or not after the time of the call.\<close>

definition date_rejected :: "runtime \<Rightarrow> date \<Rightarrow> body \<Rightarrow> bool" where
  "date_rejected V now body =
     (case newDate V (body ''eventDate'') of None \<Rightarrow> True | Some d \<Rightarrow> d \<le> now)"

text \<open>A request to join an event, and a query by email.\<close>

definition join_body :: "jsval \<Rightarrow> jsval \<Rightarrow> body" where
  "join_body eventId userEmail = fields [(''eventId'', eventId), (''userEmail'', userEmail)]"

definition email_query :: "jsval \<Rightarrow> body" where
  "email_query email = fields [(''email'', email)]"

definition role_body :: "jsval \<Rightarrow> jsval \<Rightarrow> body" where
  "role_body role requestorEmail =
     fields [(''role'', role), (''requestorEmail'', requestorEmail)]"

text \<open>A request to sync a user.\<close>

definition sync_body :: "jsval \<Rightarrow> jsval \<Rightarrow> jsval \<Rightarrow> body" where
  "sync_body email displayName photoURL =
     fields [(''email'', email), (''displayName'', displayName), (''photoURL'', photoURL)]"

section \<open>The service as a sequence of requests\<close>

text \<open>
  The sequential model: requests are handled one after the other, each on the store the
  previous one left. (The route that seeds demo events is not part of this model.)
\<close>

datatype request =
    Post_events date date objectid body
  | Get_events
  | Get_events_upcoming date
  | Get_events_user body
  | Get_event string
  | Put_event date string body
  | Post_join_event date objectid body
  | Delete_event string body
  | Get_joined body
  | Post_users_sync date date objectid body
  | Get_user string
  | Patch_user_role date string body
  | Get_users body
  | Get_stats
  | Get_stats_aggregate

fun handle :: "runtime \<Rightarrow> request \<Rightarrow> db \<Rightarrow> db" where
  "handle V (Post_events now createdAt i body) s = snd (post_events V now createdAt i body s)"
| "handle V Get_events s = snd (get_events s)"
| "handle V (Get_events_upcoming now) s = snd (get_events_upcoming now s)"
| "handle V (Get_events_user query) s = snd (get_events_user query s)"
| "handle V (Get_event id') s = snd (get_event V id' s)"
| "handle V (Put_event now id' body) s = snd (put_event V now id' body s)"
| "handle V (Post_join_event joinedAt i body) s = snd (post_join_event V joinedAt i body s)"
| "handle V (Delete_event id' body) s = snd (delete_event V id' body s)"
| "handle V (Get_joined query) s = snd (get_joined query s)"
| "handle V (Post_users_sync t1 t2 i body) s = snd (post_users_sync t1 t2 i body s)"
| "handle V (Get_user email) s = snd (get_user email s)"
| "handle V (Patch_user_role now email body) s = snd (patch_user_role now email body s)"
| "handle V (Get_users query) s = snd (get_users query s)"
| "handle V Get_stats s = snd (get_stats s)"
| "handle V Get_stats_aggregate s = snd (get_stats_aggregate s)"

definition run :: "runtime \<Rightarrow> request list \<Rightarrow> db \<Rightarrow> db" where
  "run V rs s = foldl (\<lambda>s r. handle V r s) s rs"

definition empty_db :: db where
  "empty_db = \<lparr>eventsCollection = [], joinedCollection = [], usersCollection = [], calls = []\<rparr>"

definition store_ok :: "db \<Rightarrow> bool" where
  "store_ok s = (event_ids_unique s \<and> joins_unique s \<and> emails_present s)"

section \<open>Facts about the store operations\<close>

lemmas sample_defs =
  sample_db_def sample_event_def other_event_def sample_join_def other_join_def
  admin_user_def plain_user_def sample_id_def sample_runtime_def hex_lower_def
  fields_def event_body_def

lemma truthy_qmatch: "truthy q \<Longrightarrow> qmatch q v = (v = q)"
  by (cases q) (auto simp: qmatch_def)

lemma find_distinct_key:
  "distinct (map f xs) \<Longrightarrow> e \<in> set xs \<Longrightarrow> find (\<lambda>x. f x = f e) xs = Some e"
  by (induction xs) (auto simp: image_iff)

lemma find_None_list_ex: "find P xs = None \<longleftrightarrow> \<not> list_ex P xs"
  by (induction xs) auto

lemma update_first_none: "\<not> list_ex P xs \<Longrightarrow> update_first P f xs = xs"
  by (induction xs) auto

lemma find_Some_list_ex: "find P xs = Some x \<Longrightarrow> list_ex P xs"
  by (induction xs) (auto split: if_splits)

section \<open>Ownership\<close>

text \<open>
  C1 (as amended). For every stored event \<open>e\<close>, addressed by a valid id string of its
  ObjectId, and every non-empty \<open>requestorEmail\<close> different from the creator email of
  \<open>e\<close>, both \<^verbatim>\<open>PUT /events/:id\<close> and \<^verbatim>\<open>DELETE /events/:id\<close> answer 403
  (Forbidden) and leave the events and the joins as they were. An empty or missing
  \<open>requestorEmail\<close> is refused earlier, with 400.
\<close>

theorem other_requestor_forbidden:
  assumes "e \<in> set (eventsCollection s)" and "event_ids_unique s"
    and "isValid V (JStr id')" and "newObjectId V (JStr id') = ev_id e"
    and "truthy (body ''requestorEmail'')"
    and "body ''requestorEmail'' \<noteq> ev_creatorEmail e"
  shows "fst (put_event V now id' body s)
           = Failure 403 ''You are not allowed to update this event.''
     \<and> eventsCollection (snd (put_event V now id' body s)) = eventsCollection s
     \<and> joinedCollection (snd (put_event V now id' body s)) = joinedCollection s
     \<and> fst (delete_event V id' body s)
           = Failure 403 ''You are not allowed to delete this event.''
     \<and> eventsCollection (snd (delete_event V id' body s)) = eventsCollection s
     \<and> joinedCollection (snd (delete_event V id' body s)) = joinedCollection s"
proof -
  have f: "find (\<lambda>x. ev_id x = ev_id e) (eventsCollection s) = Some e"
    using assms(1,2) by (simp add: find_distinct_key event_ids_unique_def)
  show ?thesis
    using assms(3-6) f
    by (auto simp: put_event_def delete_event_def events_findOne_def logged_def Let_def)
qed

theorem other_requestor_forbidden_witness:
  "sample_event \<in> set (eventsCollection sample_db) \<and> event_ids_unique sample_db
   \<and> isValid sample_runtime (JStr ''64B7F0C2A1D3E4F5A6B7C8D9'')
   \<and> newObjectId sample_runtime (JStr ''64B7F0C2A1D3E4F5A6B7C8D9'') = ev_id sample_event
   \<and> truthy (JStr ''bob@x.com'') \<and> JStr ''bob@x.com'' \<noteq> ev_creatorEmail sample_event
   \<and> fst (put_event sample_runtime 1000 ''64B7F0C2A1D3E4F5A6B7C8D9''
            (event_body (JNum 3000) (JStr ''bob@x.com'')) sample_db)
       = Failure 403 ''You are not allowed to update this event.''
   \<and> fst (delete_event sample_runtime ''64B7F0C2A1D3E4F5A6B7C8D9''
            (event_body (JNum 3000) (JStr ''bob@x.com'')) sample_db)
       = Failure 403 ''You are not allowed to delete this event.''"
proof -
  have h1: "sample_event \<in> set (eventsCollection sample_db)"
    by (simp add: sample_defs)
  have h2: "event_ids_unique sample_db"
    by (simp add: sample_defs event_ids_unique_def)
  have h3: "isValid sample_runtime (JStr ''64B7F0C2A1D3E4F5A6B7C8D9'')"
    by (simp add: sample_defs)
  have h4: "newObjectId sample_runtime (JStr ''64B7F0C2A1D3E4F5A6B7C8D9'') = ev_id sample_event"
    by (simp add: sample_defs)
  have h5: "truthy (event_body (JNum 3000) (JStr ''bob@x.com'') ''requestorEmail'')"
    by (simp add: sample_defs)
  have h6: "event_body (JNum 3000) (JStr ''bob@x.com'') ''requestorEmail''
              \<noteq> ev_creatorEmail sample_event"
    by (simp add: sample_defs)
  show ?thesis
    using other_requestor_forbidden
            [where e = sample_event and s = sample_db and V = sample_runtime
               and body = "event_body (JNum 3000) (JStr ''bob@x.com'')" and now = 1000,
             OF h1 h2 h3 h4 h5 h6]
          h1 h2 h3 h4
    by (simp add: sample_event_def)
qed

text \<open>
  The claim as written fails at the empty \<open>requestorEmail\<close>: it differs from the creator
  email of the stored event, and both handlers answer 400, not 403.
\<close>

theorem empty_requestor_not_forbidden:
  "sample_event \<in> set (eventsCollection sample_db)
   \<and> JStr [] \<noteq> ev_creatorEmail sample_event
   \<and> fst (put_event sample_runtime 1000 sample_id (event_body (JNum 3000) (JStr [])) sample_db)
       = Failure 400 ''requestorEmail is required.''
   \<and> fst (delete_event sample_runtime sample_id (event_body (JNum 3000) (JStr [])) sample_db)
       = Failure 400 ''requestorEmail is required.''"
  by (simp add: sample_defs put_event_def delete_event_def)

section \<open>Identifiers that are not ObjectIds\<close>

text \<open>
  C10. For every id string that \<^verbatim>\<open>ObjectId.isValid\<close> refuses, \<^verbatim>\<open>GET\<close>,
  \<^verbatim>\<open>PUT\<close> and \<^verbatim>\<open>DELETE /events/:id\<close> and \<^verbatim>\<open>POST /join-event\<close> answer 400
  and return the store as it was, the list of store calls included: no collection is read
  or written. (\<^verbatim>\<open>POST /join-event\<close> answers 400 with the missing-field message when
  the id is empty or the user email is missing.)
\<close>

theorem invalid_id_rejected:
  assumes "\<not> isValid V (JStr id')"
  shows "get_event V id' s = (Failure 400 ''Invalid event id.'', s)
     \<and> put_event V now id' body s = (Failure 400 ''Invalid event id.'', s)
     \<and> delete_event V id' body s = (Failure 400 ''Invalid event id.'', s)
     \<and> post_join_event V now insertedId (body(''eventId'' := JStr id')) s =
         (Failure 400 (if id' = [] \<or> \<not> truthy (body ''userEmail'')
                       then ''eventId and userEmail are required.''
                       else ''Invalid eventId.''), s)"
  using assms
  by (simp add: get_event_def put_event_def delete_event_def post_join_event_def Let_def)

theorem invalid_id_rejected_witness:
  "\<not> isValid sample_runtime (JStr ''not-an-id'')
   \<and> get_event sample_runtime ''not-an-id'' sample_db
       = (Failure 400 ''Invalid event id.'', sample_db)
   \<and> put_event sample_runtime 1000 ''not-an-id''
        (fields [(''userEmail'', JStr ''dave@x.com'')]) sample_db
       = (Failure 400 ''Invalid event id.'', sample_db)
   \<and> delete_event sample_runtime ''not-an-id''
        (fields [(''userEmail'', JStr ''dave@x.com'')]) sample_db
       = (Failure 400 ''Invalid event id.'', sample_db)
   \<and> post_join_event sample_runtime 1000 ''74b7f0c2a1d3e4f5a6b7c8d2''
        ((fields [(''userEmail'', JStr ''dave@x.com'')])(''eventId'' := JStr ''not-an-id''))
        sample_db
       = (Failure 400 ''Invalid eventId.'', sample_db)"
proof -
  have h: "\<not> isValid sample_runtime (JStr ''not-an-id'')"
    by (simp add: sample_runtime_def)
  show ?thesis
    using invalid_id_rejected
            [OF h, of sample_db 1000 "fields [(''userEmail'', JStr ''dave@x.com'')]"
               "''74b7f0c2a1d3e4f5a6b7c8d2''"] h
    by (simp add: fields_def)
qed

section \<open>Changing a user's role\<close>

text \<open>
  C2. \<^verbatim>\<open>PATCH /users/:email/role\<close> answers 400 (ValidationError) whenever the new
  role is neither "user" nor "admin"; otherwise 403 (Forbidden) whenever the requestor
  email does not resolve to a user whose role is "admin"; otherwise 404 (NotFound)
  whenever the target email resolves to no user; and whenever it does not succeed, the
  users (so every role and every \<open>updatedAt\<close>), the events and the joins are as before.
\<close>

theorem set_user_role_failures:
  "(body ''role'' \<noteq> JStr ''user'' \<and> body ''role'' \<noteq> JStr ''admin'' \<longrightarrow>
      patch_user_role now email body s
        = (Failure 400 ''Valid role (user or admin) is required.'', s))
   \<and> ((body ''role'' = JStr ''user'' \<or> body ''role'' = JStr ''admin'')
        \<and> (\<forall>u. lookup_user (body ''requestorEmail'') s = Some u
                 \<longrightarrow> us_role u \<noteq> JStr ''admin'') \<longrightarrow>
      fst (patch_user_role now email body s)
        = Failure 403 ''Only admins can update user roles.'')
   \<and> ((body ''role'' = JStr ''user'' \<or> body ''role'' = JStr ''admin'')
        \<and> (\<exists>u. lookup_user (body ''requestorEmail'') s = Some u
                 \<and> us_role u = JStr ''admin'')
        \<and> lookup_user (JStr email) s = None \<longrightarrow>
      fst (patch_user_role now email body s) = Failure 404 ''User not found.'')
   \<and> (\<not> is_success (fst (patch_user_role now email body s)) \<longrightarrow>
        usersCollection (snd (patch_user_role now email body s)) = usersCollection s
        \<and> eventsCollection (snd (patch_user_role now email body s)) = eventsCollection s
        \<and> joinedCollection (snd (patch_user_role now email body s)) = joinedCollection s)"
  by (auto simp: patch_user_role_def Let_def users_findOne_def users_updateOne_def
      lookup_user_def logged_def find_None_list_ex update_first_none
      split: option.splits if_splits dest: find_Some_list_ex)

theorem set_user_role_failures_witness:
  "patch_user_role 900 ''carol@x.com'' (role_body (JStr ''owner'') (JStr ''root@x.com''))
      sample_db
     = (Failure 400 ''Valid role (user or admin) is required.'', sample_db)
   \<and> fst (patch_user_role 900 ''carol@x.com''
             (role_body (JStr ''admin'') (JStr ''carol@x.com'')) sample_db)
     = Failure 403 ''Only admins can update user roles.''
   \<and> fst (patch_user_role 900 ''dave@x.com''
             (role_body (JStr ''admin'') (JStr ''root@x.com'')) sample_db)
     = Failure 404 ''User not found.''
   \<and> usersCollection (snd (patch_user_role 900 ''dave@x.com''
             (role_body (JStr ''admin'') (JStr ''root@x.com'')) sample_db))
     = usersCollection sample_db"
proof -
  let ?b1 = "role_body (JStr ''owner'') (JStr ''root@x.com'')"
  let ?b2 = "role_body (JStr ''admin'') (JStr ''carol@x.com'')"
  let ?b3 = "role_body (JStr ''admin'') (JStr ''root@x.com'')"
  have a1: "?b1 ''role'' \<noteq> JStr ''user'' \<and> ?b1 ''role'' \<noteq> JStr ''admin''"
    by (simp add: role_body_def fields_def)
  have a2: "(?b2 ''role'' = JStr ''user'' \<or> ?b2 ''role'' = JStr ''admin'')
     \<and> (\<forall>u. lookup_user (?b2 ''requestorEmail'') sample_db = Some u
              \<longrightarrow> us_role u \<noteq> JStr ''admin'')"
    by (simp add: role_body_def sample_defs lookup_user_def qmatch_def)
  have a3: "(?b3 ''role'' = JStr ''user'' \<or> ?b3 ''role'' = JStr ''admin'')
     \<and> (\<exists>u. lookup_user (?b3 ''requestorEmail'') sample_db = Some u
              \<and> us_role u = JStr ''admin'')
     \<and> lookup_user (JStr ''dave@x.com'') sample_db = None"
    by (simp add: role_body_def sample_defs lookup_user_def qmatch_def)
  have r1: "patch_user_role 900 ''carol@x.com'' ?b1 sample_db
     = (Failure 400 ''Valid role (user or admin) is required.'', sample_db)"
    using set_user_role_failures [of ?b1 900 "''carol@x.com''" sample_db] a1 by blast
  have r2: "fst (patch_user_role 900 ''carol@x.com'' ?b2 sample_db)
     = Failure 403 ''Only admins can update user roles.''"
    using set_user_role_failures [of ?b2 900 "''carol@x.com''" sample_db] a2 by blast
  have r3: "fst (patch_user_role 900 ''dave@x.com'' ?b3 sample_db)
     = Failure 404 ''User not found.''"
    using set_user_role_failures [of ?b3 900 "''dave@x.com''" sample_db] a3 by blast
  have r4: "usersCollection (snd (patch_user_role 900 ''dave@x.com'' ?b3 sample_db))
     = usersCollection sample_db"
    using set_user_role_failures [of ?b3 900 "''dave@x.com''" sample_db] r3 by simp
  show ?thesis using r1 r2 r3 r4 by simp
qed

section \<open>Joining an event twice\<close>

lemma post_join_event_conflict:
  assumes "truthy (body ''eventId'')" and "truthy (body ''userEmail'')"
    and "isValid V (body ''eventId'')"
    and "lookup_event (newObjectId V (body ''eventId'')) s = Some e"
    and "list_ex (\<lambda>j. jn_eventId j = ev_id e \<and> jn_userEmail j = body ''userEmail'')
           (joinedCollection s)"
  shows "fst (post_join_event V t i body s)
           = Failure 400 ''You have already joined this event.''
     \<and> joinedCollection (snd (post_join_event V t i body s)) = joinedCollection s
     \<and> eventsCollection (snd (post_join_event V t i body s)) = eventsCollection s"
  using assms
  by (auto simp: post_join_event_def Let_def events_findOne_def joined_findOne_def
      lookup_event_def logged_def truthy_qmatch find_None_list_ex
      split: option.splits)

lemma post_join_event_unique:
  assumes "joins_unique s"
  shows "joins_unique (snd (post_join_event V t i body s))"
  using assms
  by (auto simp: post_join_event_def Let_def events_findOne_def joined_findOne_def
      joined_insertOne_def insert_doc_def joins_unique_def
      logged_def truthy_qmatch find_None_list_ex list_ex_iff
      split: option.splits)

lemma post_join_event_success:
  assumes "fst (post_join_event V t i body s) = Success c p"
  shows "truthy (body ''eventId'') \<and> truthy (body ''userEmail'')
    \<and> isValid V (body ''eventId'')
    \<and> (\<exists>e. lookup_event (newObjectId V (body ''eventId'')) s = Some e
          \<and> list_ex (\<lambda>j. jn_eventId j = ev_id e \<and> jn_userEmail j = body ''userEmail'')
               (joinedCollection (snd (post_join_event V t i body s))))
    \<and> eventsCollection (snd (post_join_event V t i body s)) = eventsCollection s"
  using assms
  by (auto simp: post_join_event_def Let_def events_findOne_def joined_findOne_def
      joined_insertOne_def insert_doc_def lookup_event_def logged_def
      split: option.splits if_splits)

text \<open>
  C3. In every state in which the event id of the request resolves to an event and a
  Join of that event and the user email of the request exists,
  \<^verbatim>\<open>POST /join-event\<close> answers 400 with the already-joined message (Conflict) and the
  joins are unchanged. So a second call after a successful one is refused and adds no
  Join; and a call made in a state with at most one Join per pair of event and user
  leaves such a state.
\<close>

theorem duplicate_join_conflict:
  "(truthy (body ''eventId'') \<and> truthy (body ''userEmail'') \<and> isValid V (body ''eventId'')
      \<and> lookup_event (newObjectId V (body ''eventId'')) s = Some e
      \<and> list_ex (\<lambda>j. jn_eventId j = ev_id e \<and> jn_userEmail j = body ''userEmail'')
           (joinedCollection s) \<longrightarrow>
      fst (post_join_event V t i body s)
        = Failure 400 ''You have already joined this event.''
      \<and> joinedCollection (snd (post_join_event V t i body s)) = joinedCollection s)
   \<and> (is_success (fst (post_join_event V t i body s)) \<longrightarrow>
      fst (post_join_event V t' i' body (snd (post_join_event V t i body s)))
        = Failure 400 ''You have already joined this event.''
      \<and> joinedCollection
          (snd (post_join_event V t' i' body (snd (post_join_event V t i body s))))
        = joinedCollection (snd (post_join_event V t i body s)))
   \<and> (joins_unique s \<longrightarrow> joins_unique (snd (post_join_event V t i body s)))"
proof (intro conjI impI)
  assume a: "is_success (fst (post_join_event V t i body s))"
  then obtain c p where "fst (post_join_event V t i body s) = Success c p"
    by (cases "fst (post_join_event V t i body s)") auto
  from post_join_event_success [OF this]
  obtain e where e: "truthy (body ''eventId'')" "truthy (body ''userEmail'')"
      "isValid V (body ''eventId'')"
      "lookup_event (newObjectId V (body ''eventId'')) (snd (post_join_event V t i body s))
         = Some e"
      "list_ex (\<lambda>j. jn_eventId j = ev_id e \<and> jn_userEmail j = body ''userEmail'')
               (joinedCollection (snd (post_join_event V t i body s)))"
    by (auto simp: lookup_event_def)
  from post_join_event_conflict [OF e]
  show "fst (post_join_event V t' i' body (snd (post_join_event V t i body s)))
        = Failure 400 ''You have already joined this event.''"
    and "joinedCollection
           (snd (post_join_event V t' i' body (snd (post_join_event V t i body s))))
        = joinedCollection (snd (post_join_event V t i body s))"
    by simp_all
qed (simp_all add: post_join_event_conflict post_join_event_unique)

theorem duplicate_join_conflict_witness:
  "fst (post_join_event sample_runtime 1000 ''74b7f0c2a1d3e4f5a6b7c8d2''
          (join_body (JStr sample_id) (JStr ''carol@x.com'')) sample_db)
     = Failure 400 ''You have already joined this event.''
   \<and> is_success (fst (post_join_event sample_runtime 1000 ''74b7f0c2a1d3e4f5a6b7c8d2''
          (join_body (JStr sample_id) (JStr ''dave@x.com'')) sample_db))
   \<and> fst (post_join_event sample_runtime 1001 ''74b7f0c2a1d3e4f5a6b7c8d3''
          (join_body (JStr sample_id) (JStr ''dave@x.com''))
          (snd (post_join_event sample_runtime 1000 ''74b7f0c2a1d3e4f5a6b7c8d2''
                  (join_body (JStr sample_id) (JStr ''dave@x.com'')) sample_db)))
     = Failure 400 ''You have already joined this event.''
   \<and> joins_unique sample_db
   \<and> joins_unique (snd (post_join_event sample_runtime 1000 ''74b7f0c2a1d3e4f5a6b7c8d2''
          (join_body (JStr sample_id) (JStr ''dave@x.com'')) sample_db))"
proof -
  let ?carol = "join_body (JStr sample_id) (JStr ''carol@x.com'')"
  let ?dave = "join_body (JStr sample_id) (JStr ''dave@x.com'')"
  have a1: "truthy (?carol ''eventId'') \<and> truthy (?carol ''userEmail'')
      \<and> isValid sample_runtime (?carol ''eventId'')
      \<and> lookup_event (newObjectId sample_runtime (?carol ''eventId'')) sample_db
          = Some sample_event
      \<and> list_ex (\<lambda>j. jn_eventId j = ev_id sample_event
                      \<and> jn_userEmail j = ?carol ''userEmail'') (joinedCollection sample_db)"
    by (simp add: join_body_def sample_defs lookup_event_def)
  have a2: "is_success (fst (post_join_event sample_runtime 1000 ''74b7f0c2a1d3e4f5a6b7c8d2''
              ?dave sample_db))"
    by (simp add: join_body_def sample_defs post_join_event_def events_findOne_def
        joined_findOne_def joined_insertOne_def insert_doc_def logged_def qmatch_def)
  have a3: "joins_unique sample_db"
    by (simp add: sample_defs joins_unique_def)
  have r1: "fst (post_join_event sample_runtime 1000 ''74b7f0c2a1d3e4f5a6b7c8d2''
              ?carol sample_db) = Failure 400 ''You have already joined this event.''"
    using duplicate_join_conflict
            [where body = ?carol and V = sample_runtime and s = sample_db
               and e = sample_event and t = 1000 and i = "''74b7f0c2a1d3e4f5a6b7c8d2''"]
          a1
    by blast
  note d = duplicate_join_conflict
            [where body = ?dave and V = sample_runtime and s = sample_db
               and t = 1000 and i = "''74b7f0c2a1d3e4f5a6b7c8d2''"
               and t' = 1001 and i' = "''74b7f0c2a1d3e4f5a6b7c8d3''"]
  have r2: "fst (post_join_event sample_runtime 1001 ''74b7f0c2a1d3e4f5a6b7c8d3'' ?dave
          (snd (post_join_event sample_runtime 1000 ''74b7f0c2a1d3e4f5a6b7c8d2''
                  ?dave sample_db)))
     = Failure 400 ''You have already joined this event.''"
    using d a2 by blast
  have r3: "joins_unique (snd (post_join_event sample_runtime 1000
              ''74b7f0c2a1d3e4f5a6b7c8d2'' ?dave sample_db))"
    using d a3 by blast
  show ?thesis using r1 a2 r2 a3 r3 by simp
qed

section \<open>Deleting an event\<close>

lemma delete_first_distinct:
  "distinct (map f xs) \<Longrightarrow> delete_first (\<lambda>x. f x = k) xs = filter (\<lambda>x. f x \<noteq> k) xs"
proof (induction xs)
  case Nil
  then show ?case by simp
next
  case (Cons a xs)
  have "filter (\<lambda>x. f x \<noteq> f a) xs = xs"
    using Cons.prems by (auto simp: filter_id_conv image_iff)
  then show ?case using Cons by auto
qed

text \<open>
  C4. For every stored event \<open>e\<close>, \<^verbatim>\<open>DELETE /events/:id\<close> with the id of \<open>e\<close> and
  the creator email of \<open>e\<close> as requestor succeeds, removes \<open>e\<close> (and no other event) and
  removes exactly the Joins whose \<open>eventId\<close> is the id of \<open>e\<close>; afterwards
  \<^verbatim>\<open>GET /joined\<close> returns, for every user, no Join of that event.
\<close>

theorem delete_event_cascades:
  assumes "e \<in> set (eventsCollection s)" and "event_ids_unique s"
    and "isValid V (JStr id')" and "newObjectId V (JStr id') = ev_id e"
    and "truthy (ev_creatorEmail e)" and "body ''requestorEmail'' = ev_creatorEmail e"
  shows "fst (delete_event V id' body s) = Success 200 ()
     \<and> eventsCollection (snd (delete_event V id' body s))
         = filter (\<lambda>x. ev_id x \<noteq> ev_id e) (eventsCollection s)
     \<and> e \<notin> set (eventsCollection (snd (delete_event V id' body s)))
     \<and> joinedCollection (snd (delete_event V id' body s))
         = filter (\<lambda>j. jn_eventId j \<noteq> ev_id e) (joinedCollection s)
     \<and> (\<forall>query. case payload (fst (get_joined query (snd (delete_event V id' body s)))) of
            None \<Rightarrow> \<not> truthy (query ''email'')
          | Some joins \<Rightarrow> list_all (\<lambda>j. jn_eventId j \<noteq> ev_id e) joins)"
proof -
  have f: "find (\<lambda>x. ev_id x = ev_id e) (eventsCollection s) = Some e"
    using assms(1,2) by (simp add: find_distinct_key event_ids_unique_def)
  have d: "delete_first (\<lambda>x. ev_id x = ev_id e) (eventsCollection s)
             = filter (\<lambda>x. ev_id x \<noteq> ev_id e) (eventsCollection s)"
    using assms(2) by (simp add: delete_first_distinct event_ids_unique_def)
  show ?thesis
    using assms(3-6) f d
    by (auto simp: delete_event_def events_findOne_def events_deleteOne_def
        joined_deleteMany_def get_joined_def joined_find_def logged_def Let_def
        list_all_iff)
qed

theorem delete_event_cascades_witness:
  "sample_event \<in> set (eventsCollection sample_db) \<and> event_ids_unique sample_db
   \<and> isValid sample_runtime (JStr sample_id)
   \<and> newObjectId sample_runtime (JStr sample_id) = ev_id sample_event
   \<and> truthy (ev_creatorEmail sample_event)
   \<and> fst (delete_event sample_runtime sample_id
            (event_body JUndefined (JStr ''alice@x.com'')) sample_db) = Success 200 ()
   \<and> eventsCollection (snd (delete_event sample_runtime sample_id
            (event_body JUndefined (JStr ''alice@x.com'')) sample_db)) = [other_event]
   \<and> joinedCollection (snd (delete_event sample_runtime sample_id
            (event_body JUndefined (JStr ''alice@x.com'')) sample_db)) = [other_join]
   \<and> payload (fst (get_joined (email_query (JStr ''carol@x.com''))
        (snd (delete_event sample_runtime sample_id
            (event_body JUndefined (JStr ''alice@x.com'')) sample_db)))) = Some [other_join]"
proof -
  let ?b = "event_body JUndefined (JStr ''alice@x.com'')"
  have h1: "sample_event \<in> set (eventsCollection sample_db)"
    by (simp add: sample_defs)
  have h2: "event_ids_unique sample_db"
    by (simp add: sample_defs event_ids_unique_def)
  have h3: "isValid sample_runtime (JStr sample_id)"
    by (simp add: sample_defs)
  have h4: "newObjectId sample_runtime (JStr sample_id) = ev_id sample_event"
    by (simp add: sample_defs)
  have h5: "truthy (ev_creatorEmail sample_event)"
    by (simp add: sample_defs)
  have h6: "?b ''requestorEmail'' = ev_creatorEmail sample_event"
    by (simp add: sample_defs)
  note d = delete_event_cascades
            [where e = sample_event and s = sample_db and V = sample_runtime
               and body = ?b, OF h1 h2 h3 h4 h5 h6]
  have j: "joinedCollection (snd (delete_event sample_runtime sample_id ?b sample_db))
             = [other_join]"
    using d by (simp add: sample_defs)
  have g: "payload (fst (get_joined (email_query (JStr ''carol@x.com''))
             (snd (delete_event sample_runtime sample_id ?b sample_db)))) = Some [other_join]"
    by (simp add: get_joined_def joined_find_def j email_query_def fields_def qmatch_def
        other_join_def)
  have k: "eventsCollection (snd (delete_event sample_runtime sample_id ?b sample_db))
             = [other_event]"
    using d by (simp add: sample_defs)
  show ?thesis using h1 h2 h3 h4 h5 d j g k by simp
qed

section \<open>Updating an event\<close>

lemma update_first_split:
  "find P xs = Some e \<Longrightarrow>
     \<exists>as bs. xs = as @ e # bs \<and> \<not> list_ex P as \<and> update_first P f xs = as @ f e # bs"
proof (induction xs)
  case Nil
  then show ?case by simp
next
  case (Cons a xs)
  show ?case
  proof (cases "P a")
    case True
    with Cons.prems have "a = e" by simp
    with True have "a # xs = [] @ e # xs \<and> \<not> list_ex P []
        \<and> update_first P f (a # xs) = [] @ f e # xs" by simp
    then show ?thesis by blast
  next
    case False
    with Cons obtain as bs where
      "xs = as @ e # bs" "\<not> list_ex P as" "update_first P f xs = as @ f e # bs"
      by auto
    with False have "a # xs = (a # as) @ e # bs \<and> \<not> list_ex P (a # as)
        \<and> update_first P f (a # xs) = (a # as) @ f e # bs" by simp
    then show ?thesis by blast
  qed
qed

lemma find_update_first:
  "find P xs = Some e \<Longrightarrow> P (f e) \<Longrightarrow> find P (update_first P f xs) = Some (f e)"
  by (induction xs) (auto split: if_splits)

lemma overwrite_fun:
  "overwrite body d =
     (\<lambda>e. e\<lparr>ev_title := body ''title'', ev_description := body ''description'',
       ev_eventType := body ''eventType'', ev_thumbnail := body ''thumbnail'',
       ev_location := body ''location'', ev_eventDate := d\<rparr>)"
  by (rule ext) (simp add: overwrite_def)

lemma put_event_success:
  assumes "is_success (fst (put_event V now id' body s))"
  shows "isValid V (JStr id') \<and> truthy (body ''requestorEmail'')
     \<and> (\<exists>e d. find (\<lambda>x. ev_id x = newObjectId V (JStr id')) (eventsCollection s) = Some e
          \<and> ev_creatorEmail e = body ''requestorEmail''
          \<and> newDate V (body ''eventDate'') = Some d \<and> now < d
          \<and> eventsCollection (snd (put_event V now id' body s))
              = update_first (\<lambda>x. ev_id x = newObjectId V (JStr id')) (overwrite body d)
                  (eventsCollection s))
     \<and> joinedCollection (snd (put_event V now id' body s)) = joinedCollection s
     \<and> usersCollection (snd (put_event V now id' body s)) = usersCollection s"
  using assms
  by (auto simp: put_event_def events_findOne_def events_updateOne_def logged_def Let_def
        overwrite_fun split: option.splits if_splits)

text \<open>
  C6. Whenever \<^verbatim>\<open>PUT /events/:id\<close> succeeds, the events are as before except for
  one, the first whose id is the one addressed, in which title, description, eventType,
  thumbnail, location and eventDate are overwritten; its id, creatorEmail and createdAt,
  every other event, every Join and every user are unchanged.
\<close>

theorem update_event_frame:
  assumes "is_success (fst (put_event V now id' body s))"
  shows "(\<exists>before e after d.
            eventsCollection s = before @ e # after
          \<and> ev_id e = newObjectId V (JStr id')
          \<and> \<not> list_ex (\<lambda>x. ev_id x = newObjectId V (JStr id')) before
          \<and> newDate V (body ''eventDate'') = Some d
          \<and> eventsCollection (snd (put_event V now id' body s))
              = before @ overwrite body d e # after
          \<and> ev_id (overwrite body d e) = ev_id e
          \<and> ev_creatorEmail (overwrite body d e) = ev_creatorEmail e
          \<and> ev_createdAt (overwrite body d e) = ev_createdAt e)
     \<and> joinedCollection (snd (put_event V now id' body s)) = joinedCollection s
     \<and> usersCollection (snd (put_event V now id' body s)) = usersCollection s"
proof -
  from put_event_success [OF assms] obtain e d where
    f: "find (\<lambda>x. ev_id x = newObjectId V (JStr id')) (eventsCollection s) = Some e"
    and d: "newDate V (body ''eventDate'') = Some d"
    and u: "eventsCollection (snd (put_event V now id' body s))
              = update_first (\<lambda>x. ev_id x = newObjectId V (JStr id')) (overwrite body d)
                  (eventsCollection s)"
    and j: "joinedCollection (snd (put_event V now id' body s)) = joinedCollection s"
       "usersCollection (snd (put_event V now id' body s)) = usersCollection s"
    by blast
  from update_first_split [OF f, of "overwrite body d"] obtain as bs where
    s: "eventsCollection s = as @ e # bs"
       "\<not> list_ex (\<lambda>x. ev_id x = newObjectId V (JStr id')) as"
       "update_first (\<lambda>x. ev_id x = newObjectId V (JStr id')) (overwrite body d)
          (eventsCollection s) = as @ overwrite body d e # bs"
    by blast
  have i: "ev_id e = newObjectId V (JStr id')"
    using f by (auto simp: find_Some_iff)
  have "eventsCollection s = as @ e # bs
          \<and> ev_id e = newObjectId V (JStr id')
          \<and> \<not> list_ex (\<lambda>x. ev_id x = newObjectId V (JStr id')) as
          \<and> newDate V (body ''eventDate'') = Some d
          \<and> eventsCollection (snd (put_event V now id' body s))
              = as @ overwrite body d e # bs
          \<and> ev_id (overwrite body d e) = ev_id e
          \<and> ev_creatorEmail (overwrite body d e) = ev_creatorEmail e
          \<and> ev_createdAt (overwrite body d e) = ev_createdAt e"
    using s i d u by (simp add: overwrite_def)
  then show ?thesis using j by blast
qed

lemma sample_put_success:
  "put_event sample_runtime 1000 sample_id (event_body (JNum 3000) (JStr ''alice@x.com''))
     sample_db
   = (Success 200 1,
      sample_db\<lparr>eventsCollection :=
                  [overwrite (event_body (JNum 3000) (JStr ''alice@x.com'')) 3000 sample_event,
                   other_event],
                calls := [FindOne Events, UpdateOne Events]\<rparr>)"
  by (simp add: sample_defs put_event_def events_findOne_def events_updateOne_def
      logged_def overwrite_def Let_def)

theorem update_event_frame_witness:
  "is_success (fst (put_event sample_runtime 1000 sample_id
                      (event_body (JNum 3000) (JStr ''alice@x.com'')) sample_db))
   \<and> eventsCollection (snd (put_event sample_runtime 1000 sample_id
                      (event_body (JNum 3000) (JStr ''alice@x.com'')) sample_db))
       = [overwrite (event_body (JNum 3000) (JStr ''alice@x.com'')) 3000 sample_event,
          other_event]
   \<and> joinedCollection (snd (put_event sample_runtime 1000 sample_id
                      (event_body (JNum 3000) (JStr ''alice@x.com'')) sample_db))
       = [sample_join, other_join]
   \<and> usersCollection (snd (put_event sample_runtime 1000 sample_id
                      (event_body (JNum 3000) (JStr ''alice@x.com'')) sample_db))
       = [admin_user, plain_user]"
proof -
  let ?b = "event_body (JNum 3000) (JStr ''alice@x.com'')"
  have h: "is_success (fst (put_event sample_runtime 1000 sample_id ?b sample_db))"
    by (simp add: sample_put_success)
  have e: "eventsCollection (snd (put_event sample_runtime 1000 sample_id ?b sample_db))
       = [overwrite ?b 3000 sample_event, other_event]"
    by (simp add: sample_put_success)
  from update_event_frame [OF h]
  have "joinedCollection (snd (put_event sample_runtime 1000 sample_id ?b sample_db))
          = joinedCollection sample_db
      \<and> usersCollection (snd (put_event sample_runtime 1000 sample_id ?b sample_db))
          = usersCollection sample_db"
    by blast
  then show ?thesis using h e by (simp add: sample_db_def)
qed

section \<open>Event dates\<close>

text \<open>
  C5 (as amended). \<^verbatim>\<open>POST /events\<close> answers 400 and returns the store untouched
  whenever the event date is unparseable or not after the time of the call.
  \<^verbatim>\<open>PUT /events/:id\<close> with such a date always fails and changes no collection; its
  status is 400 when the id is not a valid ObjectId or the requestor email is empty or
  missing; otherwise 404 when the id resolves to no event; otherwise 403 when the
  requestor is not the creator; and 400 otherwise, these checks coming before the date.
  When either handler succeeds, the event it stored has the parsed date, strictly after
  the time of the call.
\<close>

theorem event_date_must_be_future:
  "(date_rejected V now body \<longrightarrow>
      (\<exists>m. post_events V now createdAt insertedId body s = (Failure 400 m, s)))
   \<and> (is_success (fst (post_events V now createdAt insertedId body s)) \<longrightarrow>
      (\<exists>d e. newDate V (body ''eventDate'') = Some d \<and> now < d \<and> ev_eventDate e = d
         \<and> eventsCollection (snd (post_events V now createdAt insertedId body s))
             = eventsCollection s @ [e]))
   \<and> (date_rejected V now body \<longrightarrow>
      \<not> is_success (fst (put_event V now id' body s))
      \<and> status (fst (put_event V now id' body s))
          = (if isValid V (JStr id') \<and> truthy (body ''requestorEmail'')
             then (case lookup_event (newObjectId V (JStr id')) s of
                     None \<Rightarrow> 404
                   | Some e \<Rightarrow> if ev_creatorEmail e = body ''requestorEmail'' then 400 else 403)
             else 400)
      \<and> eventsCollection (snd (put_event V now id' body s)) = eventsCollection s
      \<and> joinedCollection (snd (put_event V now id' body s)) = joinedCollection s
      \<and> usersCollection (snd (put_event V now id' body s)) = usersCollection s)
   \<and> (is_success (fst (put_event V now id' body s)) \<longrightarrow>
      (\<exists>d e. newDate V (body ''eventDate'') = Some d \<and> now < d \<and> ev_eventDate e = d
         \<and> lookup_event (newObjectId V (JStr id')) (snd (put_event V now id' body s))
             = Some e))"
proof (intro conjI impI)
  assume "date_rejected V now body"
  then show "\<exists>m. post_events V now createdAt insertedId body s = (Failure 400 m, s)"
    by (auto simp: date_rejected_def post_events_def Let_def split: option.splits)
next
  assume "is_success (fst (post_events V now createdAt insertedId body s))"
  then show "\<exists>d e. newDate V (body ''eventDate'') = Some d \<and> now < d \<and> ev_eventDate e = d
         \<and> eventsCollection (snd (post_events V now createdAt insertedId body s))
             = eventsCollection s @ [e]"
    by (auto simp: post_events_def Let_def events_insertOne_def insert_doc_def logged_def
        split: option.splits if_splits)
next
  assume r: "date_rejected V now body"
  then show "\<not> is_success (fst (put_event V now id' body s))"
    by (auto simp: date_rejected_def put_event_def Let_def events_findOne_def
        split: option.splits)
  from r show "status (fst (put_event V now id' body s))
          = (if isValid V (JStr id') \<and> truthy (body ''requestorEmail'')
             then (case lookup_event (newObjectId V (JStr id')) s of
                     None \<Rightarrow> 404
                   | Some e \<Rightarrow> if ev_creatorEmail e = body ''requestorEmail'' then 400 else 403)
             else 400)"
    by (auto simp: date_rejected_def put_event_def Let_def events_findOne_def
        lookup_event_def split: option.splits)
  from r show "eventsCollection (snd (put_event V now id' body s)) = eventsCollection s"
    by (auto simp: date_rejected_def put_event_def Let_def events_findOne_def logged_def
        split: option.splits)
  from r show "joinedCollection (snd (put_event V now id' body s)) = joinedCollection s"
    by (auto simp: date_rejected_def put_event_def Let_def events_findOne_def logged_def
        split: option.splits)
  from r show "usersCollection (snd (put_event V now id' body s)) = usersCollection s"
    by (auto simp: date_rejected_def put_event_def Let_def events_findOne_def logged_def
        split: option.splits)
next
  assume "is_success (fst (put_event V now id' body s))"
  from put_event_success [OF this] obtain e d where
    f: "find (\<lambda>x. ev_id x = newObjectId V (JStr id')) (eventsCollection s) = Some e"
    and d: "newDate V (body ''eventDate'') = Some d" "now < d"
    and u: "eventsCollection (snd (put_event V now id' body s))
              = update_first (\<lambda>x. ev_id x = newObjectId V (JStr id')) (overwrite body d)
                  (eventsCollection s)"
    by blast
  have i: "ev_id e = newObjectId V (JStr id')"
    using f by (auto simp: find_Some_iff)
  have "lookup_event (newObjectId V (JStr id')) (snd (put_event V now id' body s))
          = Some (overwrite body d e)"
    unfolding lookup_event_def u
    by (rule find_update_first [OF f]) (simp add: overwrite_def i)
  moreover have "ev_eventDate (overwrite body d e) = d"
    by (simp add: overwrite_def)
  ultimately show "\<exists>d e. newDate V (body ''eventDate'') = Some d \<and> now < d
         \<and> ev_eventDate e = d
         \<and> lookup_event (newObjectId V (JStr id')) (snd (put_event V now id' body s))
             = Some e"
    using d by blast
qed

theorem event_date_must_be_future_witness:
  "date_rejected sample_runtime 1000 (event_body (JNum 500) (JStr ''alice@x.com''))
   \<and> date_rejected sample_runtime 1000 (event_body (JStr ''soon'') (JStr ''alice@x.com''))
   \<and> post_events sample_runtime 1000 1001 ''64b7f0c2a1d3e4f5a6b7c8db''
        (event_body (JNum 500) (JStr ''alice@x.com'')) sample_db
       = (Failure 400 ''Event date must be a future date.'', sample_db)
   \<and> status (fst (put_event sample_runtime 1000 sample_id
                    (event_body (JStr ''soon'') (JStr ''alice@x.com'')) sample_db)) = 400
   \<and> eventsCollection (snd (put_event sample_runtime 1000 sample_id
                    (event_body (JStr ''soon'') (JStr ''alice@x.com'')) sample_db))
       = eventsCollection sample_db
   \<and> status (fst (put_event sample_runtime 1000 ''64b7f0c2a1d3e4f5a6b7c8ff''
                    (event_body (JNum 500) (JStr ''alice@x.com'')) sample_db)) = 404
   \<and> status (fst (put_event sample_runtime 1000 sample_id
                    (event_body (JNum 500) (JStr ''bob@x.com'')) sample_db)) = 403
   \<and> status (fst (put_event sample_runtime 1000 sample_id
                    (event_body (JNum 500) (JStr [])) sample_db)) = 400
   \<and> status (fst (put_event sample_runtime 1000 ''not-an-id''
                    (event_body (JNum 500) (JStr ''alice@x.com'')) sample_db)) = 400
   \<and> is_success (fst (post_events sample_runtime 1000 1001 ''64b7f0c2a1d3e4f5a6b7c8db''
                    (event_body (JNum 3000) (JStr ''alice@x.com'')) sample_db))
   \<and> is_success (fst (put_event sample_runtime 1000 sample_id
                    (event_body (JNum 3000) (JStr ''alice@x.com'')) sample_db))
   \<and> map_option ev_eventDate
        (lookup_event (newObjectId sample_runtime (JStr sample_id))
           (snd (put_event sample_runtime 1000 sample_id
                   (event_body (JNum 3000) (JStr ''alice@x.com'')) sample_db)))
       = Some 3000"
proof -
  let ?past = "event_body (JNum 500) (JStr ''alice@x.com'')"
  let ?soon = "event_body (JStr ''soon'') (JStr ''alice@x.com'')"
  let ?ok = "event_body (JNum 3000) (JStr ''alice@x.com'')"
  have a1: "date_rejected sample_runtime 1000 ?past"
    by (simp add: date_rejected_def sample_defs)
  have a2: "date_rejected sample_runtime 1000 ?soon"
    by (simp add: date_rejected_def sample_defs)
  have a3: "is_success (fst (post_events sample_runtime 1000 1001
              ''64b7f0c2a1d3e4f5a6b7c8db'' ?ok sample_db))"
    by (simp add: sample_defs post_events_def events_insertOne_def insert_doc_def
        logged_def Let_def)
  have a4: "is_success (fst (put_event sample_runtime 1000 sample_id ?ok sample_db))"
    by (simp add: sample_put_success)
  have r1: "post_events sample_runtime 1000 1001 ''64b7f0c2a1d3e4f5a6b7c8db'' ?past sample_db
       = (Failure 400 ''Event date must be a future date.'', sample_db)"
    by (simp add: sample_defs post_events_def Let_def)
  note t = event_date_must_be_future
             [where V = sample_runtime and now = 1000 and body = ?soon
                and id' = sample_id and s = sample_db]
  have r2: "status (fst (put_event sample_runtime 1000 sample_id ?soon sample_db)) = 400
     \<and> eventsCollection (snd (put_event sample_runtime 1000 sample_id ?soon sample_db))
         = eventsCollection sample_db"
    using t a2 by (simp add: sample_defs lookup_event_def)
  have r3: "map_option ev_eventDate
        (lookup_event (newObjectId sample_runtime (JStr sample_id))
           (snd (put_event sample_runtime 1000 sample_id ?ok sample_db))) = Some 3000"
    by (simp add: sample_put_success lookup_event_def)
       (simp add: sample_defs overwrite_def)
  have b1: "date_rejected sample_runtime 1000 (event_body (JNum 500) (JStr ''bob@x.com''))"
    by (simp add: date_rejected_def sample_defs)
  have b2: "date_rejected sample_runtime 1000 (event_body (JNum 500) (JStr []))"
    by (simp add: date_rejected_def sample_defs)
  have r4: "status (fst (put_event sample_runtime 1000 ''64b7f0c2a1d3e4f5a6b7c8ff''
              ?past sample_db)) = 404"
    using event_date_must_be_future
            [where V = sample_runtime and now = 1000 and body = ?past
               and id' = "''64b7f0c2a1d3e4f5a6b7c8ff''" and s = sample_db] a1
    by (simp add: sample_defs lookup_event_def)
  have r5: "status (fst (put_event sample_runtime 1000 sample_id
              (event_body (JNum 500) (JStr ''bob@x.com'')) sample_db)) = 403"
    using event_date_must_be_future
            [where V = sample_runtime and now = 1000
               and body = "event_body (JNum 500) (JStr ''bob@x.com'')"
               and id' = sample_id and s = sample_db] b1
    by (simp add: sample_defs lookup_event_def)
  have r6: "status (fst (put_event sample_runtime 1000 sample_id
              (event_body (JNum 500) (JStr [])) sample_db)) = 400"
    using event_date_must_be_future
            [where V = sample_runtime and now = 1000
               and body = "event_body (JNum 500) (JStr [])"
               and id' = sample_id and s = sample_db] b2
    by (simp add: sample_defs lookup_event_def)
  have r7: "status (fst (put_event sample_runtime 1000 ''not-an-id'' ?past sample_db)) = 400"
    using event_date_must_be_future
            [where V = sample_runtime and now = 1000 and body = ?past
               and id' = "''not-an-id''" and s = sample_db] a1
    by (simp add: sample_defs lookup_event_def)
  show ?thesis using a1 a2 a3 a4 r1 r2 r3 r4 r5 r6 r7 by simp
qed

text \<open>
  The claim as written fails for an update by someone who is not the creator: the date
  is not after the time of the call, and the answer is 403, not 400.
\<close>

theorem past_date_update_by_other_is_forbidden:
  "date_rejected sample_runtime 1000 (event_body (JNum 500) (JStr ''bob@x.com''))
   \<and> fst (put_event sample_runtime 1000 sample_id
            (event_body (JNum 500) (JStr ''bob@x.com'')) sample_db)
       = Failure 403 ''You are not allowed to update this event.''"
  by (simp add: date_rejected_def sample_defs put_event_def events_findOne_def Let_def)

section \<open>Listing events\<close>

text \<open>
  C9. \<^verbatim>\<open>GET /events\<close> returns the stored events, each as often as it is stored, in
  ascending order of \<open>eventDate\<close>; \<^verbatim>\<open>GET /events/upcoming\<close> returns exactly the stored
  events whose \<open>eventDate\<close> is strictly greater than the current time, in ascending
  order of \<open>eventDate\<close>.
\<close>

theorem events_listed_by_date:
  "(\<exists>evs. fst (get_events s) = Success 200 evs
       \<and> sorted (map ev_eventDate evs) \<and> mset evs = mset (eventsCollection s))
   \<and> (\<exists>evs. fst (get_events_upcoming now s) = Success 200 evs
       \<and> sorted (map ev_eventDate evs)
       \<and> mset evs = mset (filter (\<lambda>e. now < ev_eventDate e) (eventsCollection s)))"
  by (simp add: get_events_def get_events_upcoming_def events_find_def)

theorem events_listed_by_date_witness:
  "fst (get_events sample_db) = Success 200 [other_event, sample_event]
   \<and> fst (get_events_upcoming 1700 sample_db) = Success 200 [sample_event]"
  using events_listed_by_date [of sample_db 1700]
  by (simp add: get_events_def get_events_upcoming_def events_find_def sample_defs)

section \<open>Counting users\<close>

lemma set_truthy_group_values:
  "set (filter truthy (group_values vs)) = {v \<in> set vs. truthy v}"
  by (auto simp: group_values_def)

text \<open>
  The revision with \<^verbatim>\<open>aggregate\<close> counts the emails that are not falsy; in every
  state in which each creator and participant email is a non-empty value, that is the
  cardinality of the union of the two sets of emails, values compared exactly.
\<close>

lemma total_users_aggregate:
  "map_option totalUsers (payload (fst (get_stats_aggregate s)))
     = Some (card {v \<in> all_emails s. truthy v})
   \<and> (emails_present s \<longrightarrow>
        map_option totalUsers (payload (fst (get_stats_aggregate s)))
          = Some (card (all_emails s)))"
proof -
  have "{v \<in> ev_creatorEmail ` set (eventsCollection s). truthy v}
          \<union> {v \<in> jn_userEmail ` set (joinedCollection s). truthy v}
        = {v \<in> all_emails s. truthy v}"
    by (auto simp: all_emails_def)
  then have a: "map_option totalUsers (payload (fst (get_stats_aggregate s)))
     = Some (card {v \<in> all_emails s. truthy v})"
    by (simp add: get_stats_aggregate_def Let_def logged_def length_remdups_card_conv
        set_truthy_group_values del: set_filter)
  have "{v \<in> all_emails s. truthy v} = all_emails s" if "emails_present s"
    using that by (auto simp: emails_present_def all_emails_def list_all_iff)
  with a show ?thesis by (simp del: map_option_eq_Some)
qed

text \<open>
  The revision with \<^verbatim>\<open>distinct\<close> answers 500 in every state: the store refuses the
  command.
\<close>

lemma get_stats_refused:
  "get_stats s =
     (Failure 500 ''Failed to load statistics'',
      logged (Distinct Events)
        (logged (EstimatedDocumentCount Joined) (logged (EstimatedDocumentCount Events) s)))"
  by (simp add: get_stats_def events_distinct_def stable_api_v1_def Let_def)

text \<open>
  C7. On the sample store, whose creator and participant emails are three distinct
  values, \<^verbatim>\<open>GET /stats\<close> of \<^verbatim>\<open>index.js\<close> answers 500 and returns no
  \<open>totalUsers\<close>, where the claim has the cardinality of the union, 3; the revision with
  \<^verbatim>\<open>aggregate\<close> returns 3.
\<close>

theorem distinct_stats_refused:
  "fst (get_stats sample_db) = Failure 500 ''Failed to load statistics''
   \<and> payload (fst (get_stats sample_db)) = None
   \<and> card (all_emails sample_db) = 3
   \<and> map_option totalUsers (payload (fst (get_stats_aggregate sample_db))) = Some 3"
proof -
  have h: "emails_present sample_db"
    by (simp add: emails_present_def sample_defs)
  have e: "all_emails sample_db
             = {JStr ''alice@x.com'', JStr ''bob@x.com'', JStr ''carol@x.com''}"
    by (auto simp: all_emails_def sample_defs)
  have c: "card (all_emails sample_db) = 3"
    unfolding e by simp
  from total_users_aggregate [of sample_db] h
  have r: "map_option totalUsers (payload (fst (get_stats_aggregate sample_db)))
             = Some (card (all_emails sample_db))"
    by blast
  show ?thesis using c r [unfolded c] by (simp add: get_stats_refused)
qed

section \<open>Syncing a user\<close>

lemma find_append_first:
  "\<not> list_ex P as \<Longrightarrow> P x \<Longrightarrow> find P (as @ x # bs) = Some x"
  by (induction as) auto

lemma post_users_sync_existing:
  assumes "truthy (body ''email'')" and "lookup_user (body ''email'') s = Some u"
  shows "\<exists>before after.
           usersCollection s = before @ u # after
         \<and> \<not> list_ex (\<lambda>x. qmatch (body ''email'') (us_email x)) before
         \<and> usersCollection (snd (post_users_sync t1 t2 i body s))
             = before @ u\<lparr>us_displayName := (if truthy (body ''displayName'')
                                                then body ''displayName''
                                                else us_displayName u),
                              us_photoURL := (if truthy (body ''photoURL'')
                                              then body ''photoURL'' else us_photoURL u),
                              us_updatedAt := t1\<rparr> # after
         \<and> fst (post_users_sync t1 t2 i body s)
             = Success 200
                 (public (u\<lparr>us_displayName := (if truthy (body ''displayName'')
                                                   then body ''displayName''
                                                   else us_displayName u),
                              us_photoURL := (if truthy (body ''photoURL'')
                                              then body ''photoURL'' else us_photoURL u),
                              us_updatedAt := t1\<rparr>))
         \<and> eventsCollection (snd (post_users_sync t1 t2 i body s)) = eventsCollection s
         \<and> joinedCollection (snd (post_users_sync t1 t2 i body s)) = joinedCollection s"
proof -
  let ?P = "\<lambda>x. qmatch (body ''email'') (us_email x)"
  let ?u' = "u\<lparr>us_displayName := (if truthy (body ''displayName'')
                                     then body ''displayName'' else us_displayName u),
                us_photoURL := (if truthy (body ''photoURL'')
                                then body ''photoURL'' else us_photoURL u),
                us_updatedAt := t1\<rparr>"
  define f :: "user \<Rightarrow> user" where "f = (\<lambda>u. (if truthy (body ''photoURL'')
                  then us_photoURL_update (\<lambda>_. body ''photoURL'') else id)
                 ((if truthy (body ''displayName'')
                   then us_displayName_update (\<lambda>_. body ''displayName'') else id)
                  (u\<lparr>us_updatedAt := t1\<rparr>)))"
  have fd: "find ?P (usersCollection s) = Some u"
    using assms(2) by (simp add: lookup_user_def)
  have fu: "f u = ?u'"
    by (simp add: f_def)
  have fe: "us_email (f x) = us_email x" for x
    by (simp add: f_def)
  have "?P u"
    using fd by (auto simp: find_Some_iff)
  then have pu: "?P (f u)"
    by (simp add: fe)
  from update_first_split [OF fd, of f] obtain before after where
    s: "usersCollection s = before @ u # after" "\<not> list_ex ?P before"
       "update_first ?P f (usersCollection s) = before @ f u # after"
    by blast
  have g: "find ?P (update_first ?P f (usersCollection s)) = Some (f u)"
    using fd pu by (rule find_update_first [where f = f])
  have r: "post_users_sync t1 t2 i body s
             = (Success 200 (public (f u)),
                logged (FindOne Users) (logged (UpdateOne Users)
                  ((logged (FindOne Users) s)
                     \<lparr>usersCollection := update_first ?P f (usersCollection s)\<rparr>)))"
    unfolding post_users_sync_def Let_def users_findOne_def users_updateOne_def f_def [symmetric]
    using assms(1) fd g by (simp add: logged_def)
  have c: "usersCollection (snd (post_users_sync t1 t2 i body s)) = before @ ?u' # after"
    unfolding r by (simp add: logged_def s(3) fu)
  have d: "fst (post_users_sync t1 t2 i body s) = Success 200 (public ?u')"
    unfolding r by (simp add: fu)
  have e: "eventsCollection (snd (post_users_sync t1 t2 i body s)) = eventsCollection s"
          "joinedCollection (snd (post_users_sync t1 t2 i body s)) = joinedCollection s"
    unfolding r by (simp_all add: logged_def)
  show ?thesis
    apply (rule exI [of _ before])
    apply (rule exI [of _ after])
    using s(1,2) c d e apply (intro conjI)
         apply assumption+
    done
qed

lemma post_users_sync_success:
  assumes "is_success (fst (post_users_sync t1 t2 i body s))"
  shows "truthy (body ''email'')
     \<and> (\<exists>u. lookup_user (body ''email'') (snd (post_users_sync t1 t2 i body s)) = Some u
           \<and> fst (post_users_sync t1 t2 i body s) = Success 200 (public u)
           \<and> (truthy (body ''displayName'') \<longrightarrow> us_displayName u = body ''displayName'')
           \<and> (truthy (body ''photoURL'') \<longrightarrow> us_photoURL u = body ''photoURL''))"
proof -
  have e: "truthy (body ''email'')"
    using assms by (auto simp: post_users_sync_def Let_def split: if_splits)
  show ?thesis
  proof (cases "lookup_user (body ''email'') s")
    case None
    let ?P = "\<lambda>x. qmatch (body ''email'') (us_email x)"
    let ?new = "\<lparr>us_id = i, us_email = body ''email'',
                 us_displayName = jor (body ''displayName'') (JStr []),
                 us_photoURL = jor (body ''photoURL'') (JStr []),
                 us_role = JStr ''user'', us_createdAt = t1, us_updatedAt = t2\<rparr>"
    have f: "find ?P (usersCollection s) = None"
      using None by (simp add: lookup_user_def)
    have n: "i \<notin> us_id ` set (usersCollection s)"
      using assms e f
      by (auto simp: post_users_sync_def Let_def users_findOne_def users_insertOne_def
          insert_doc_def logged_def split: if_splits)
    have r: "post_users_sync t1 t2 i body s
               = (Success 200 (public ?new),
                  logged (InsertOne Users)
                    ((logged (FindOne Users) s)
                       \<lparr>usersCollection := usersCollection s @ [?new]\<rparr>))"
      using e f n
      by (simp add: post_users_sync_def Let_def users_findOne_def users_insertOne_def
          insert_doc_def logged_def)
    have "\<not> list_ex ?P (usersCollection s)"
      using f by (simp add: find_None_list_ex)
    moreover have "?P ?new"
      using e by (simp add: truthy_qmatch)
    ultimately have "find ?P (usersCollection s @ [?new]) = Some ?new"
      by (rule find_append_first)
    then have "lookup_user (body ''email'') (snd (post_users_sync t1 t2 i body s))
                 = Some ?new"
      unfolding r by (simp add: lookup_user_def logged_def)
    moreover have "fst (post_users_sync t1 t2 i body s) = Success 200 (public ?new)"
      unfolding r by simp
    moreover have "(truthy (body ''displayName'')
                      \<longrightarrow> us_displayName ?new = body ''displayName'')
                 \<and> (truthy (body ''photoURL'') \<longrightarrow> us_photoURL ?new = body ''photoURL'')"
      by (simp add: jor_def)
    ultimately show ?thesis using e by blast
  next
    case (Some u)
    from post_users_sync_existing [where body = body and s = s and u = u, OF e Some, of t1 t2 i] obtain before after where
      b: "\<not> list_ex (\<lambda>x. qmatch (body ''email'') (us_email x)) before"
      and u: "usersCollection (snd (post_users_sync t1 t2 i body s))
             = before @ u\<lparr>us_displayName := (if truthy (body ''displayName'')
                                                then body ''displayName''
                                                else us_displayName u),
                              us_photoURL := (if truthy (body ''photoURL'')
                                              then body ''photoURL'' else us_photoURL u),
                              us_updatedAt := t1\<rparr> # after"
      and r: "fst (post_users_sync t1 t2 i body s)
             = Success 200
                 (public (u\<lparr>us_displayName := (if truthy (body ''displayName'')
                                                   then body ''displayName''
                                                   else us_displayName u),
                              us_photoURL := (if truthy (body ''photoURL'')
                                              then body ''photoURL'' else us_photoURL u),
                              us_updatedAt := t1\<rparr>))"
      by blast
    have "qmatch (body ''email'') (us_email u)"
      using Some by (auto simp: lookup_user_def find_Some_iff)
    then show ?thesis
      using e b u r by (auto simp: lookup_user_def find_append_first)
  qed
qed

text \<open>
  C8. When \<^verbatim>\<open>POST /users/sync\<close> has succeeded, a second call with the same body
  succeeds with the same projection (email, displayName, photoURL, role), and the users
  afterwards are the users before it with one change: \<open>updatedAt\<close> of the synced user
  is the time of the second call. The events and the joins are unchanged. And for a user
  that exists, whatever the body, the call leaves the role of every user as it was.
\<close>

theorem sync_user_idempotent:
  "(is_success (fst (post_users_sync t1 t2 i body s)) \<longrightarrow>
      (\<exists>before u after.
           usersCollection (snd (post_users_sync t1 t2 i body s)) = before @ u # after
         \<and> us_email u = body ''email''
         \<and> fst (post_users_sync t1 t2 i body s) = Success 200 (public u)
         \<and> fst (post_users_sync t3 t4 i' body (snd (post_users_sync t1 t2 i body s)))
             = Success 200 (public u)
         \<and> usersCollection
               (snd (post_users_sync t3 t4 i' body (snd (post_users_sync t1 t2 i body s))))
             = before @ u\<lparr>us_updatedAt := t3\<rparr> # after)
      \<and> eventsCollection
            (snd (post_users_sync t3 t4 i' body (snd (post_users_sync t1 t2 i body s))))
          = eventsCollection (snd (post_users_sync t1 t2 i body s))
      \<and> joinedCollection
            (snd (post_users_sync t3 t4 i' body (snd (post_users_sync t1 t2 i body s))))
          = joinedCollection (snd (post_users_sync t1 t2 i body s)))
   \<and> (truthy (body ''email'') \<and> lookup_user (body ''email'') s \<noteq> None \<longrightarrow>
        map us_role (usersCollection (snd (post_users_sync t1 t2 i body s)))
          = map us_role (usersCollection s))"
proof (intro conjI impI)
  assume "truthy (body ''email'') \<and> lookup_user (body ''email'') s \<noteq> None"
  then obtain u where e: "truthy (body ''email'')"
    and l: "lookup_user (body ''email'') s = Some u"
    by auto
  from post_users_sync_existing [where body = body and s = s and u = u, OF e l, of t1 t2 i]
  show "map us_role (usersCollection (snd (post_users_sync t1 t2 i body s)))
          = map us_role (usersCollection s)"
    by auto
next
  assume a: "is_success (fst (post_users_sync t1 t2 i body s))"
  let ?s1 = "snd (post_users_sync t1 t2 i body s)"
  from post_users_sync_success [OF a] obtain u where
    e: "truthy (body ''email'')"
    and l: "lookup_user (body ''email'') ?s1 = Some u"
    and r: "fst (post_users_sync t1 t2 i body s) = Success 200 (public u)"
    and d: "truthy (body ''displayName'') \<longrightarrow> us_displayName u = body ''displayName''"
    and p: "truthy (body ''photoURL'') \<longrightarrow> us_photoURL u = body ''photoURL''"
    by blast
  have same: "u\<lparr>us_displayName := (if truthy (body ''displayName'')
                                     then body ''displayName'' else us_displayName u),
                us_photoURL := (if truthy (body ''photoURL'')
                                then body ''photoURL'' else us_photoURL u),
                us_updatedAt := t3\<rparr> = u\<lparr>us_updatedAt := t3\<rparr>"
    using d p by simp
  have m: "us_email u = body ''email''"
    using l e by (auto simp: lookup_user_def find_Some_iff truthy_qmatch)
  from post_users_sync_existing [where body = body and s = "snd (post_users_sync t1 t2 i body s)" and u = u, OF e l, of t3 t4 i'] obtain before after where
    x: "usersCollection ?s1 = before @ u # after"
       "usersCollection (snd (post_users_sync t3 t4 i' body ?s1))
          = before @ u\<lparr>us_updatedAt := t3\<rparr> # after"
       "fst (post_users_sync t3 t4 i' body ?s1) = Success 200 (public (u\<lparr>us_updatedAt := t3\<rparr>))"
    and y: "eventsCollection (snd (post_users_sync t3 t4 i' body ?s1)) = eventsCollection ?s1"
       "joinedCollection (snd (post_users_sync t3 t4 i' body ?s1)) = joinedCollection ?s1"
    unfolding same by blast
  have "public (u\<lparr>us_updatedAt := t3\<rparr>) = public u"
    by (simp add: public_def)
  with x m r
  show "\<exists>before u after.
           usersCollection ?s1 = before @ u # after
         \<and> us_email u = body ''email''
         \<and> fst (post_users_sync t1 t2 i body s) = Success 200 (public u)
         \<and> fst (post_users_sync t3 t4 i' body ?s1) = Success 200 (public u)
         \<and> usersCollection (snd (post_users_sync t3 t4 i' body ?s1))
             = before @ u\<lparr>us_updatedAt := t3\<rparr> # after"
    by auto
  from y show "eventsCollection (snd (post_users_sync t3 t4 i' body ?s1)) = eventsCollection ?s1"
    and "joinedCollection (snd (post_users_sync t3 t4 i' body ?s1)) = joinedCollection ?s1"
    by simp_all
qed

lemma sample_sync_first:
  "post_users_sync 900 901 ''84b7f0c2a1d3e4f5a6b7c8d2''
     (sync_body (JStr ''carol@x.com'') (JStr ''Carol'') JUndefined) sample_db
   = (Success 200 (JStr ''carol@x.com'', JStr ''Carol'', JStr ''https://x.com/c.png'',
                   JStr ''user''),
      sample_db\<lparr>usersCollection := [admin_user, plain_user\<lparr>us_updatedAt := 900\<rparr>],
                calls := [FindOne Users, UpdateOne Users, FindOne Users]\<rparr>)"
  by (simp add: sample_defs sync_body_def post_users_sync_def users_findOne_def
      users_updateOne_def logged_def qmatch_def public_def Let_def)

lemma sample_sync_second:
  "post_users_sync 950 951 ''84b7f0c2a1d3e4f5a6b7c8d3''
     (sync_body (JStr ''carol@x.com'') (JStr ''Carol'') JUndefined)
     (snd (post_users_sync 900 901 ''84b7f0c2a1d3e4f5a6b7c8d2''
             (sync_body (JStr ''carol@x.com'') (JStr ''Carol'') JUndefined) sample_db))
   = (Success 200 (JStr ''carol@x.com'', JStr ''Carol'', JStr ''https://x.com/c.png'',
                   JStr ''user''),
      sample_db\<lparr>usersCollection := [admin_user, plain_user\<lparr>us_updatedAt := 950\<rparr>],
                calls := [FindOne Users, UpdateOne Users, FindOne Users,
                          FindOne Users, UpdateOne Users, FindOne Users]\<rparr>)"
  unfolding sample_sync_first
  by (simp add: sample_defs sync_body_def post_users_sync_def users_findOne_def
      users_updateOne_def logged_def qmatch_def public_def Let_def)

theorem sync_user_idempotent_witness:
  "is_success (fst (post_users_sync 900 901 ''84b7f0c2a1d3e4f5a6b7c8d2''
       (sync_body (JStr ''carol@x.com'') (JStr ''Carol'') JUndefined) sample_db))
   \<and> truthy (JStr ''carol@x.com'')
   \<and> lookup_user (JStr ''carol@x.com'') sample_db = Some plain_user
   \<and> map us_role (usersCollection (snd (post_users_sync 900 901 ''84b7f0c2a1d3e4f5a6b7c8d2''
       (sync_body (JStr ''carol@x.com'') (JStr ''Carol'') JUndefined) sample_db)))
       = [JStr ''admin'', JStr ''user'']
   \<and> eventsCollection (snd (post_users_sync 950 951 ''84b7f0c2a1d3e4f5a6b7c8d3''
       (sync_body (JStr ''carol@x.com'') (JStr ''Carol'') JUndefined)
       (snd (post_users_sync 900 901 ''84b7f0c2a1d3e4f5a6b7c8d2''
              (sync_body (JStr ''carol@x.com'') (JStr ''Carol'') JUndefined) sample_db))))
       = [sample_event, other_event]
   \<and> usersCollection (snd (post_users_sync 950 951 ''84b7f0c2a1d3e4f5a6b7c8d3''
       (sync_body (JStr ''carol@x.com'') (JStr ''Carol'') JUndefined)
       (snd (post_users_sync 900 901 ''84b7f0c2a1d3e4f5a6b7c8d2''
              (sync_body (JStr ''carol@x.com'') (JStr ''Carol'') JUndefined) sample_db))))
       = [admin_user, plain_user\<lparr>us_updatedAt := 950\<rparr>]"
proof -
  let ?b = "sync_body (JStr ''carol@x.com'') (JStr ''Carol'') JUndefined"
  have h: "is_success (fst (post_users_sync 900 901 ''84b7f0c2a1d3e4f5a6b7c8d2'' ?b sample_db))"
    by (simp add: sample_sync_first)
  have k: "truthy (?b ''email'') \<and> lookup_user (?b ''email'') sample_db \<noteq> None"
    by (simp add: sync_body_def sample_defs lookup_user_def qmatch_def)
  have l: "lookup_user (JStr ''carol@x.com'') sample_db = Some plain_user"
    by (simp add: sample_defs lookup_user_def qmatch_def)
  note t = sync_user_idempotent
             [where body = ?b and s = sample_db and ?t1.0 = 900 and ?t2.0 = 901
                and i = "''84b7f0c2a1d3e4f5a6b7c8d2''" and ?t3.0 = 950 and ?t4.0 = 951
                and i' = "''84b7f0c2a1d3e4f5a6b7c8d3''"]
  have r1: "map us_role (usersCollection
               (snd (post_users_sync 900 901 ''84b7f0c2a1d3e4f5a6b7c8d2'' ?b sample_db)))
             = map us_role (usersCollection sample_db)"
    using t k by blast
  have r2: "eventsCollection (snd (post_users_sync 950 951 ''84b7f0c2a1d3e4f5a6b7c8d3'' ?b
               (snd (post_users_sync 900 901 ''84b7f0c2a1d3e4f5a6b7c8d2'' ?b sample_db))))
             = eventsCollection
                 (snd (post_users_sync 900 901 ''84b7f0c2a1d3e4f5a6b7c8d2'' ?b sample_db))"
    using t h by blast
  have r3: "eventsCollection
              (snd (post_users_sync 900 901 ''84b7f0c2a1d3e4f5a6b7c8d2'' ?b sample_db))
             = [sample_event, other_event]"
    by (simp add: sample_sync_first) (simp add: sample_db_def)
  have r4: "map us_role (usersCollection sample_db) = [JStr ''admin'', JStr ''user'']"
    by (simp add: sample_defs)
  have r5: "usersCollection (snd (post_users_sync 950 951 ''84b7f0c2a1d3e4f5a6b7c8d3'' ?b
               (snd (post_users_sync 900 901 ''84b7f0c2a1d3e4f5a6b7c8d2'' ?b sample_db))))
             = [admin_user, plain_user\<lparr>us_updatedAt := 950\<rparr>]"
    by (simp add: sample_sync_second)
  show ?thesis using h l r1 r2 r3 r4 r5 by simp
qed

section \<open>What every request preserves\<close>

text \<open>
  The identifiers of the stored events stay distinct, there stays at most one Join per
  pair of event and user, and every stored creator and participant email stays a
  non-empty value: each handler keeps these, so they hold after any sequence of requests
  made on the empty store.
\<close>

lemma map_update_first:
  "(\<And>x. g (f x) = g x) \<Longrightarrow> map g (update_first P f xs) = map g xs"
  by (induction xs) auto

lemma set_delete_first: "set (delete_first P xs) \<subseteq> set xs"
  by (induction xs) auto

lemma distinct_map_delete_first:
  "distinct (map f xs) \<Longrightarrow> distinct (map f (delete_first P xs))"
proof (induction xs)
  case Nil
  then show ?case by simp
next
  case (Cons a xs)
  then show ?case using set_delete_first [of P xs] by (auto simp: image_iff)
qed

lemma events_kept:
  assumes "event_ids_unique s" and "list_all (\<lambda>e. truthy (ev_creatorEmail e)) (eventsCollection s)"
  shows "event_ids_unique (handle V r s)
     \<and> list_all (\<lambda>e. truthy (ev_creatorEmail e)) (eventsCollection (handle V r s))"
proof (cases r)
  case (Post_events now createdAt i body)
  then show ?thesis
    using assms
    by (auto simp: post_events_def Let_def events_insertOne_def insert_doc_def logged_def
        event_ids_unique_def split: option.splits)
next
  case (Put_event now id' body)
  have "map ev_id (update_first P (\<lambda>e. e\<lparr>ev_title := a, ev_description := b,
            ev_eventType := c, ev_thumbnail := d, ev_location := l, ev_eventDate := t\<rparr>) xs)
          = map ev_id xs"
       "map ev_creatorEmail (update_first P (\<lambda>e. e\<lparr>ev_title := a, ev_description := b,
            ev_eventType := c, ev_thumbnail := d, ev_location := l, ev_eventDate := t\<rparr>) xs)
          = map ev_creatorEmail xs" for P a b c d l t and xs :: "event list"
    by (simp_all add: map_update_first)
  note m = this
  have q: "list_all (\<lambda>e. truthy (ev_creatorEmail e)) xs
             = list_all truthy (map ev_creatorEmail xs)" for xs :: "event list"
    by (simp add: list_all_iff)
  show ?thesis
    using assms unfolding Put_event q
    by (auto simp: put_event_def Let_def events_findOne_def events_updateOne_def logged_def
        event_ids_unique_def m split: option.splits)
next
  case (Delete_event id' body)
  then show ?thesis
    using assms set_delete_first [of "\<lambda>e. ev_id e = newObjectId V (JStr id')" "eventsCollection s"]
    by (auto simp: delete_event_def Let_def events_findOne_def events_deleteOne_def
        joined_deleteMany_def logged_def event_ids_unique_def distinct_map_delete_first
        list_all_iff split: option.splits)
next
  case (Post_join_event t i body)
  then show ?thesis
    using assms
    by (auto simp: post_join_event_def Let_def events_findOne_def joined_findOne_def
        joined_insertOne_def insert_doc_def logged_def event_ids_unique_def
        split: option.splits)
next
  case (Post_users_sync t1 t2 i body)
  then show ?thesis
    using assms
    by (auto simp: post_users_sync_def Let_def users_findOne_def users_insertOne_def
        users_updateOne_def insert_doc_def logged_def event_ids_unique_def
        split: option.splits)
next
  case (Patch_user_role now email body)
  then show ?thesis
    using assms
    by (auto simp: patch_user_role_def Let_def users_findOne_def users_updateOne_def
        logged_def event_ids_unique_def split: option.splits)
qed (use assms in \<open>auto simp: get_events_def get_events_upcoming_def get_events_user_def
      get_event_def get_joined_def get_user_def get_users_def get_stats_def
      get_stats_aggregate_def events_distinct_def joined_distinct_def
      events_find_def events_findOne_def joined_find_def
      users_findOne_def users_find_def logged_def event_ids_unique_def Let_def
      split: option.splits\<close>)

lemma joins_kept:
  assumes "joins_unique s" and "list_all (\<lambda>j. truthy (jn_userEmail j)) (joinedCollection s)"
  shows "joins_unique (handle V r s)
     \<and> list_all (\<lambda>j. truthy (jn_userEmail j)) (joinedCollection (handle V r s))"
proof (cases r)
  case (Post_events now createdAt i body)
  then show ?thesis
    using assms
    by (auto simp: post_events_def Let_def events_insertOne_def insert_doc_def logged_def
        joins_unique_def split: option.splits)
next
  case (Put_event now id' body)
  then show ?thesis
    using assms
    by (auto simp: put_event_def Let_def events_findOne_def events_updateOne_def logged_def
        joins_unique_def split: option.splits)
next
  case (Delete_event id' body)
  then show ?thesis
    using assms
    by (auto simp: delete_event_def Let_def events_findOne_def events_deleteOne_def
        joined_deleteMany_def logged_def joins_unique_def distinct_map_filter
        list_all_iff split: option.splits)
next
  case (Post_join_event t i body)
  have "list_all (\<lambda>j. truthy (jn_userEmail j))
          (joinedCollection (snd (post_join_event V t i body s)))"
    using assms(2)
    by (auto simp: post_join_event_def Let_def events_findOne_def joined_findOne_def
        joined_insertOne_def insert_doc_def logged_def split: option.splits)
  then show ?thesis
    using assms(1) Post_join_event by (simp add: post_join_event_unique)
next
  case (Post_users_sync t1 t2 i body)
  then show ?thesis
    using assms
    by (auto simp: post_users_sync_def Let_def users_findOne_def users_insertOne_def
        users_updateOne_def insert_doc_def logged_def joins_unique_def
        split: option.splits)
next
  case (Patch_user_role now email body)
  then show ?thesis
    using assms
    by (auto simp: patch_user_role_def Let_def users_findOne_def users_updateOne_def
        logged_def joins_unique_def split: option.splits)
qed (use assms in \<open>auto simp: get_events_def get_events_upcoming_def get_events_user_def
      get_event_def get_joined_def get_user_def get_users_def get_stats_def
      get_stats_aggregate_def events_distinct_def joined_distinct_def
      events_find_def events_findOne_def joined_find_def
      users_findOne_def users_find_def logged_def joins_unique_def Let_def
      split: option.splits\<close>)

lemma handle_keeps_store_ok: "store_ok s \<Longrightarrow> store_ok (handle V r s)"
  using events_kept [of s V r] joins_kept [of s V r]
  by (simp add: store_ok_def emails_present_def)

lemma run_keeps_store_ok: "store_ok s \<Longrightarrow> store_ok (run V rs s)"
  unfolding run_def by (induction rs arbitrary: s) (simp_all add: handle_keeps_store_ok)

lemma store_ok_reachable: "store_ok (run V rs empty_db)"
  by (rule run_keeps_store_ok)
     (simp add: store_ok_def empty_db_def event_ids_unique_def joins_unique_def
        emails_present_def)

text \<open>
  So after any sequence of requests on the empty store, \<open>totalUsers\<close> of the revision
  with \<^verbatim>\<open>aggregate\<close> is the cardinality of the union of the creator emails and the
  participant emails.
\<close>

lemma total_users_reachable:
  "map_option totalUsers (payload (fst (get_stats_aggregate (run V rs empty_db))))
     = Some (card (all_emails (run V rs empty_db)))"
proof -
  have "emails_present (run V rs empty_db)"
    using store_ok_reachable [of V rs] by (simp add: store_ok_def)
  with total_users_aggregate [of "run V rs empty_db"] show ?thesis
    by blast
qed

end
